theory Spec2Isabelle
  imports Main
begin

section \<open>Python values, exceptions and library calls\<close>

text \<open>
  The datasets of \<^verbatim>\<open>minigpt4/datasets/datasets/mimic_cxr_dataset.py\<close> read annotation
  records, which are the dictionaries that \<^verbatim>\<open>json.load\<close> produces. A record is a partial
  map from field names to values, so that \<^verbatim>\<open>item['image_path']\<close> on a record
  without that field is the \<^verbatim>\<open>KeyError\<close> of the source. The values are the scalar
  ones a field of an annotation holds: a string, an integer, a boolean or \<^verbatim>\<open>None\<close>.
\<close>

datatype pyval = PStr string | PInt int | PBool bool | PNone

type_synonym pydict = "string \<rightharpoonup> pyval"

text \<open>
  Every \<^verbatim>\<open>raise\<close> of the source and of the library calls it makes is a value.
  \<open>LibraryError\<close> is any exception below \<^verbatim>\<open>Exception\<close> that the image library or an
  injected processor raises; \<open>BaseExceptionOnly\<close> is one that is not below
  \<^verbatim>\<open>Exception\<close> (\<^verbatim>\<open>KeyboardInterrupt\<close>, \<^verbatim>\<open>SystemExit\<close>), which
  \<^verbatim>\<open>except Exception\<close> lets through.
\<close>

datatype exn =
    KeyError string
  | IndexError
  | TypeError
  | ZeroDivisionError
  | UnboundLocalError string
  | RuntimeError string
  | LibraryError string
  | BaseExceptionOnly string

fun is_Exception :: "exn \<Rightarrow> bool" where
  "is_Exception (BaseExceptionOnly m) = False"
| "is_Exception e = True"

text \<open>\<^verbatim>\<open>d[k]\<close> on a dictionary.\<close>

definition subscript :: "pydict \<Rightarrow> string \<Rightarrow> exn + pyval" where
  "subscript d k = (case d k of None \<Rightarrow> Inl (KeyError k) | Some v \<Rightarrow> Inr v)"

text \<open>\<^verbatim>\<open>xs[i]\<close> on a list: a negative index counts from the end.\<close>

definition py_index :: "'a list \<Rightarrow> int \<Rightarrow> exn + 'a" where
  "py_index xs i =
     (let n = int (length xs); j = (if i < 0 then i + n else i)
      in if 0 \<le> j \<and> j < n then Inr (xs ! nat j) else Inl IndexError)"

text \<open>\<^verbatim>\<open>a % b\<close> on integers: the remainder of the floor division, as \<open>mod\<close> on \<open>int\<close>.\<close>

definition py_mod :: "int \<Rightarrow> int \<Rightarrow> exn + int" where
  "py_mod a b = (if b = 0 then Inl ZeroDivisionError else Inr (a mod b))"

text \<open>The decimal form of an integer, for \<^verbatim>\<open>str.format\<close>.\<close>

definition digit_char :: "nat \<Rightarrow> char" where
  "digit_char d = ''0123456789'' ! d"

function nat_to_str :: "nat \<Rightarrow> string" where
  "nat_to_str n = (if n < 10 then [digit_char n] else nat_to_str (n div 10) @ [digit_char (n mod 10)])"
  by pat_completeness auto
termination
  by (relation "measure id") auto

declare nat_to_str.simps [simp del]

definition int_to_str :: "int \<Rightarrow> string" where
  "int_to_str i = (if i < 0 then CHR ''-'' # nat_to_str (nat (- i)) else nat_to_str (nat i))"

text \<open>What a replacement field \<^verbatim>\<open>{}\<close> of \<^verbatim>\<open>str.format\<close> or of an f-string puts for a value.\<close>

fun py_format :: "pyval \<Rightarrow> string" where
  "py_format (PStr s) = s"
| "py_format (PInt i) = int_to_str i"
| "py_format (PBool b) = (if b then ''True'' else ''False'')"
| "py_format PNone = ''None''"

text \<open>
  \<^verbatim>\<open>os.path.join(a, b)\<close> with two arguments, as \<^verbatim>\<open>posixpath.join\<close> computes it: an
  absolute \<open>b\<close> replaces \<open>a\<close>, otherwise the two are put together with one separator. The
  first argument is the root directory the dataset was built with, a string; the second
  comes out of a record, and one that is not a string is a \<^verbatim>\<open>TypeError\<close>.
\<close>

definition path_join :: "string \<Rightarrow> pyval \<Rightarrow> exn + string" where
  "path_join a p =
     (case p of
        PStr b \<Rightarrow>
          Inr (if take 1 b = ''/'' then b
               else if a = [] \<or> last a = CHR ''/'' then a @ b
               else a @ ''/'' @ b)
      | _ \<Rightarrow> Inl TypeError)"

text \<open>
  \<^verbatim>\<open>random.choice(seq)\<close> is \<^verbatim>\<open>seq[randbelow(len(seq))]\<close>. The draw is an argument of
  the model: a natural number \<open>rnd\<close>, reduced below the length.
\<close>

definition choice :: "nat \<Rightarrow> 'a list \<Rightarrow> exn + 'a" where
  "choice rnd seq = (if seq = [] then Inl IndexError else Inr (seq ! (rnd mod length seq)))"

subsection \<open>Images\<close>

text \<open>
  An image of the image library has a mode, a size (width, height) and, at each position,
  the values of its bands.
\<close>

datatype mode = L | RGB | OtherMode string

record image =
  imode :: mode
  isize :: "nat \<times> nat"
  ipixel :: "nat \<Rightarrow> nat \<Rightarrow> nat list"

text \<open>
  What lies outside the program: which paths exist, what \<^verbatim>\<open>Image.open\<close> followed by the
  decoding of the file gives for a path (an image or the exception raised), the weighting
  \<^verbatim>\<open>convert("L")\<close> applies to the bands of one pixel, the resampling filter of
  \<^verbatim>\<open>resize\<close>, and what \<^verbatim>\<open>json.load\<close> reads from an annotation file.
\<close>

record world =
  path_exists :: "string \<Rightarrow> bool"
  image_open :: "string \<Rightarrow> exn + image"
  luma :: "nat list \<Rightarrow> nat"
  resample :: "nat \<times> nat \<Rightarrow> image \<Rightarrow> nat \<Rightarrow> nat \<Rightarrow> nat list"
  json_load :: "string \<Rightarrow> exn + pydict list"

definition convert_L :: "world \<Rightarrow> image \<Rightarrow> image" where
  "convert_L w im = \<lparr>imode = L, isize = isize im, ipixel = (\<lambda>x y. [luma w (ipixel im x y)])\<rparr>"

definition resize :: "world \<Rightarrow> nat \<times> nat \<Rightarrow> image \<Rightarrow> image" where
  "resize w sz im = \<lparr>imode = imode im, isize = sz, ipixel = resample w sz im\<rparr>"

fun bands :: "mode \<Rightarrow> nat" where
  "bands L = 1"
| "bands RGB = 3"
| "bands (OtherMode m) = 1"

text \<open>\<^verbatim>\<open>Image.new(mode, size)\<close>: a black image.\<close>

definition Image_new :: "mode \<Rightarrow> nat \<times> nat \<Rightarrow> image" where
  "Image_new m sz = \<lparr>imode = m, isize = sz, ipixel = (\<lambda>x y. replicate (bands m) 0)\<rparr>"

text \<open>
  \<^verbatim>\<open>canvas.paste(src)\<close> with no box: the source goes to the upper left corner, each of
  its pixels spread over the bands of the canvas.
\<close>

definition paste :: "image \<Rightarrow> image \<Rightarrow> image" where
  "paste canvas src =
     canvas\<lparr>ipixel := (\<lambda>x y.
        if x < fst (isize src) \<and> y < snd (isize src)
        then (case ipixel src x y of
                [v] \<Rightarrow> replicate (bands (imode canvas)) v
              | vs \<Rightarrow> vs)
        else ipixel canvas x y)\<rparr>"

subsection \<open>Console output\<close>

text \<open>
  Each \<^verbatim>\<open>print\<close> of the source is an event, with the values the printed line is
  formatted from. The label tells the three validation reports apart
  (\<^verbatim>\<open>Dataset\<close>, \<^verbatim>\<open>evalMIMIC\<close>, \<^verbatim>\<open>evalDetectMimic\<close>).
\<close>

datatype event =
    Validating string
  | Missing string
  | MoreMissing nat
  | ValidationComplete string
  | TotalSamples nat
  | MissingFiles nat
  | ValidSamples nat
  | WarningImageNotFound string
  | ErrorLoading string exn
  | ErrorProcessingIndex int exn

section \<open>Validation\<close>

text \<open>
  The three \<^verbatim>\<open>_validate_dataset\<close> methods have one body, up to the field the path is
  read from and the label of the report. The loop keeps \<^verbatim>\<open>valid_ann\<close>,
  \<^verbatim>\<open>missing_count\<close> and the lines printed so far; a record without the field, or with
  a path that is not a string, ends it with the exception.
\<close>

fun validate_loop ::
  "world \<Rightarrow> string \<Rightarrow> string \<Rightarrow> pydict list \<Rightarrow> pydict list \<Rightarrow> nat \<Rightarrow> event list
     \<Rightarrow> event list \<times> (exn + pydict list \<times> nat)" where
  "validate_loop w root field [] valid_ann missing_count out = (out, Inr (valid_ann, missing_count))"
| "validate_loop w root field (item # rest) valid_ann missing_count out =
     (case subscript item field of
        Inl e \<Rightarrow> (out, Inl e)
      | Inr v \<Rightarrow>
          (case path_join root v of
             Inl e \<Rightarrow> (out, Inl e)
           | Inr image_path \<Rightarrow>
               if path_exists w image_path
               then validate_loop w root field rest (valid_ann @ [item]) missing_count out
               else validate_loop w root field rest valid_ann (missing_count + 1)
                      (if missing_count + 1 \<le> 10 then out @ [Missing image_path] else out)))"

definition validate_dataset ::
  "world \<Rightarrow> string \<Rightarrow> string \<Rightarrow> string \<Rightarrow> pydict list \<Rightarrow> event list \<times> (exn + pydict list)" where
  "validate_dataset w label root field data =
     (case validate_loop w root field data [] 0 [Validating label] of
        (out, Inl e) \<Rightarrow> (out, Inl e)
      | (out, Inr (valid_ann, missing_count)) \<Rightarrow>
          (out @ (if missing_count > 10 then [MoreMissing (missing_count - 10)] else [])
               @ [ValidationComplete label, TotalSamples (length data),
                  MissingFiles missing_count, ValidSamples (length valid_ann)],
           Inr valid_ann))"

section \<open>The training dataset\<close>

record 't MimicCxrDataset =
  vis_root :: string
  vis_processor :: "image \<Rightarrow> exn + 't option"
  text_processor :: "string \<Rightarrow> exn + string"
  ann :: "pydict list"
  instruction_pool :: "string list"

text \<open>
  The image processor returns a Python value; \<open>None\<close> is Python's \<^verbatim>\<open>None\<close>, which
  \<^verbatim>\<open>__getitem__\<close> takes for a failed load.
\<close>

definition MimicCxrDataset_validate_dataset ::
  "world \<Rightarrow> 't MimicCxrDataset \<Rightarrow> event list \<times> (exn + 't MimicCxrDataset)" where
  "MimicCxrDataset_validate_dataset w self =
     (case validate_dataset w ''Dataset'' (vis_root self) ''image_path'' (ann self) of
        (out, Inl e) \<Rightarrow> (out, Inl e)
      | (out, Inr valid_ann) \<Rightarrow> (out, Inr (self\<lparr>ann := valid_ann\<rparr>)))"

definition MimicCxrDataset_init ::
  "world \<Rightarrow> (image \<Rightarrow> exn + 't option) \<Rightarrow> (string \<Rightarrow> exn + string) \<Rightarrow> string \<Rightarrow> string
     \<Rightarrow> event list \<times> (exn + 't MimicCxrDataset)" where
  "MimicCxrDataset_init w vp tp root ann_path =
     (case json_load w ann_path of
        Inl e \<Rightarrow> ([], Inl e)
      | Inr loaded \<Rightarrow>
          MimicCxrDataset_validate_dataset w
            \<lparr>vis_root = root, vis_processor = vp, text_processor = tp, ann = loaded,
             instruction_pool =
               [''Describe this image in detail'',
                ''Take a look at this image and describe what you notice'',
                ''Please provide a detailed description of the picture'',
                ''Could you describe the contents of this image for me?'']\<rparr>)"

definition MimicCxrDataset_len :: "'t MimicCxrDataset \<Rightarrow> int" where
  "MimicCxrDataset_len self = int (length (ann self))"

text \<open>
  Lines 60 to 63: the opened image in grayscale, resized to 448 by 448, pasted on a new
  three-band image of that size.
\<close>

definition resized_rgb :: "world \<Rightarrow> image \<Rightarrow> image" where
  "resized_rgb w opened =
     (let grayscale_image = resize w (448, 448) (convert_L w opened)
      in paste (Image_new RGB (isize grayscale_image)) grayscale_image)"

text \<open>
  \<^verbatim>\<open>load_image\<close>. When \<^verbatim>\<open>os.path.join\<close> raises, \<^verbatim>\<open>image_path\<close> has no value yet,
  and the handler, whose message names it, raises \<^verbatim>\<open>UnboundLocalError\<close> before it
  prints.
\<close>

definition load_image ::
  "world \<Rightarrow> 't MimicCxrDataset \<Rightarrow> pyval \<Rightarrow> event list \<times> (exn + 't option)" where
  "load_image w self image_id =
     (case path_join (vis_root self) image_id of
        Inl e \<Rightarrow> ([], Inl (if is_Exception e then UnboundLocalError ''image_path'' else e))
      | Inr image_path \<Rightarrow>
          if \<not> path_exists w image_path
          then ([WarningImageNotFound image_path], Inr None)
          else
            (case (case image_open w image_path of
                     Inl e \<Rightarrow> Inl e
                   | Inr opened \<Rightarrow> vis_processor self (resized_rgb w opened)) of
               Inl e \<Rightarrow>
                 if is_Exception e then ([ErrorLoading image_path e], Inr None)
                 else ([], Inl e)
             | Inr img \<Rightarrow> ([], Inr img)))"

record 't sample =
  image_sample :: 't
  instruction_input :: string
  answer :: pyval
  image_id :: pyval

text \<open>
  The body of the \<^verbatim>\<open>try\<close> of \<^verbatim>\<open>__getitem__\<close>, lines 81 to 98. \<open>Next\<close> is the
  \<^verbatim>\<open>continue\<close> after a load that gave \<^verbatim>\<open>None\<close>, with the next index; \<open>Return\<close>
  is the \<^verbatim>\<open>return\<close> of the sample.
\<close>

datatype 't attempt = Next int | Return "'t sample"

definition try_body ::
  "world \<Rightarrow> 't MimicCxrDataset \<Rightarrow> nat \<Rightarrow> int \<Rightarrow> event list \<times> (exn + 't attempt)" where
  "try_body w self rnd index =
     (case py_index (ann self) index of
        Inl e \<Rightarrow> ([], Inl e)
      | Inr info \<Rightarrow>
          (case subscript info ''image_path'' of
             Inl e \<Rightarrow> ([], Inl e)
           | Inr p \<Rightarrow>
               (case load_image w self p of
                  (out, Inl e) \<Rightarrow> (out, Inl e)
                | (out, Inr None) \<Rightarrow>
                    (case py_mod (index + 1) (MimicCxrDataset_len self) of
                       Inl e \<Rightarrow> (out, Inl e)
                     | Inr index' \<Rightarrow> (out, Inr (Next index')))
                | (out, Inr (Some img)) \<Rightarrow>
                    (case choice rnd (instruction_pool self) of
                       Inl e \<Rightarrow> (out, Inl e)
                     | Inr instruction \<Rightarrow>
                         (case text_processor self instruction of
                            Inl e \<Rightarrow> (out, Inl e)
                          | Inr processed \<Rightarrow>
                              (case subscript info ''caption'' of
                                 Inl e \<Rightarrow> (out, Inl e)
                               | Inr caption \<Rightarrow>
                                   (case subscript info ''image_id'' of
                                      Inl e \<Rightarrow> (out, Inl e)
                                    | Inr ident \<Rightarrow>
                                        (out, Inr (Return
                                           \<lparr>image_sample = img,
                                            instruction_input = ''<Img><ImageHere></Img> '' @ processed,
                                            answer = caption,
                                            image_id = ident\<rparr>)))))))))"

text \<open>
  The \<^verbatim>\<open>while\<close> loop of \<^verbatim>\<open>__getitem__\<close>. \<open>rnd\<close> gives the draw of each attempt. An
  exception below \<^verbatim>\<open>Exception\<close> goes to the handler, which prints, moves to the next
  index modulo the size and counts the attempt; the modulo is outside any \<^verbatim>\<open>try\<close>
  there, so its \<^verbatim>\<open>ZeroDivisionError\<close> leaves the method. The result carries the
  dataset as the method leaves it, the lines printed, and the sample or the exception.
\<close>

function getitem_loop ::
  "world \<Rightarrow> 't MimicCxrDataset \<Rightarrow> (nat \<Rightarrow> nat) \<Rightarrow> int \<Rightarrow> nat \<Rightarrow> event list \<times> (exn + 't sample)" where
  "getitem_loop w self rnd index attempts =
     (if attempts < 10 then
        (case try_body w self (rnd attempts) index of
           (out, Inr (Return s)) \<Rightarrow> (out, Inr s)
         | (out, Inr (Next index')) \<Rightarrow>
             (case getitem_loop w self rnd index' (attempts + 1) of
                (out', r) \<Rightarrow> (out @ out', r))
         | (out, Inl e) \<Rightarrow>
             if is_Exception e then
               (case py_mod (index + 1) (MimicCxrDataset_len self) of
                  Inl e' \<Rightarrow> (out @ [ErrorProcessingIndex index e], Inl e')
                | Inr index' \<Rightarrow>
                    (case getitem_loop w self rnd index' (attempts + 1) of
                       (out', r) \<Rightarrow> (out @ [ErrorProcessingIndex index e] @ out', r)))
             else (out, Inl e))
      else ([], Inl (RuntimeError ''Failed to load valid sample after 10 attempts'')))"
  by pat_completeness auto
termination
  by (relation "measure (\<lambda>(w, self, rnd, index, attempts). 10 - attempts)") auto

declare getitem_loop.simps [simp del]

definition MimicCxrDataset_getitem ::
  "world \<Rightarrow> 't MimicCxrDataset \<Rightarrow> (nat \<Rightarrow> nat) \<Rightarrow> int
     \<Rightarrow> 't MimicCxrDataset \<times> event list \<times> (exn + 't sample)" where
  "MimicCxrDataset_getitem w self rnd index =
     (case getitem_loop w self rnd index 0 of (out, r) \<Rightarrow> (self, out, r))"

section \<open>The caption-style evaluation dataset\<close>

record 't evalMIMICDataset =
  e_loaded_data :: "pydict list"
  e_root_path :: string
  e_vis_processor :: "image \<Rightarrow> exn + 't option"
  e_instruction_pool :: "string list"

definition evalMIMICDataset_validate_dataset ::
  "world \<Rightarrow> 't evalMIMICDataset \<Rightarrow> event list \<times> (exn + 't evalMIMICDataset)" where
  "evalMIMICDataset_validate_dataset w self =
     (case validate_dataset w ''evalMIMIC'' (e_root_path self) ''image_path'' (e_loaded_data self) of
        (out, Inl e) \<Rightarrow> (out, Inl e)
      | (out, Inr valid_data) \<Rightarrow> (out, Inr (self\<lparr>e_loaded_data := valid_data\<rparr>)))"

definition evalMIMICDataset_init ::
  "world \<Rightarrow> pydict list \<Rightarrow> (image \<Rightarrow> exn + 't option) \<Rightarrow> string
     \<Rightarrow> event list \<times> (exn + 't evalMIMICDataset)" where
  "evalMIMICDataset_init w loaded vp root =
     evalMIMICDataset_validate_dataset w
       \<lparr>e_loaded_data = loaded, e_root_path = root, e_vis_processor = vp,
        e_instruction_pool =
          [''Describe this image in detail'',
           ''Take a look at this image and describe what you notice'',
           ''Please provide a detailed description of the picture'',
           ''Could you describe the contents of this image for me?'']\<rparr>"

definition evalMIMICDataset_len :: "'t evalMIMICDataset \<Rightarrow> int" where
  "evalMIMICDataset_len self = int (length (e_loaded_data self))"

text \<open>
  \<^verbatim>\<open>__getitem__\<close>, lines 154 to 166, in the order of the source: the identifier is
  formatted first, the image is opened and processed, then the caption is read.
\<close>

definition evalMIMICDataset_getitem ::
  "world \<Rightarrow> 't evalMIMICDataset \<Rightarrow> nat \<Rightarrow> int
     \<Rightarrow> 't evalMIMICDataset \<times> event list \<times> (exn + 't option \<times> string \<times> string)" where
  "evalMIMICDataset_getitem w self rnd idx =
     (self, [],
      case py_index (e_loaded_data self) idx of
        Inl e \<Rightarrow> Inl e
      | Inr info \<Rightarrow>
          (case subscript info ''image_id'' of
             Inl e \<Rightarrow> Inl e
           | Inr ident \<Rightarrow>
               let img_id = py_format ident @ ''.jpg'' in
               (case subscript info ''image_path'' of
                  Inl e \<Rightarrow> Inl e
                | Inr p \<Rightarrow>
                    (case path_join (e_root_path self) p of
                       Inl e \<Rightarrow> Inl e
                     | Inr image_path \<Rightarrow>
                         (case image_open w image_path of
                            Inl e \<Rightarrow> Inl e
                          | Inr opened \<Rightarrow>
                              (case e_vis_processor self (resized_rgb w opened) of
                                 Inl e \<Rightarrow> Inl e
                               | Inr img \<Rightarrow>
                                   (case subscript info ''caption'' of
                                      Inl e \<Rightarrow> Inl e
                                    | Inr caption \<Rightarrow>
                                        (case choice rnd (e_instruction_pool self) of
                                           Inl e \<Rightarrow> Inl e
                                         | Inr question \<Rightarrow> Inr (img, question, img_id)))))))))"

section \<open>The detection-style evaluation dataset\<close>

record 't evalDetectMimicDataset =
  d_loaded_data :: "pydict list"
  d_root_path :: string
  d_vis_processor :: "image \<Rightarrow> exn + 't option"

definition evalDetectMimicDataset_validate_dataset ::
  "world \<Rightarrow> 't evalDetectMimicDataset \<Rightarrow> event list \<times> (exn + 't evalDetectMimicDataset)" where
  "evalDetectMimicDataset_validate_dataset w self =
     (case validate_dataset w ''evalDetectMimic'' (d_root_path self) ''key'' (d_loaded_data self) of
        (out, Inl e) \<Rightarrow> (out, Inl e)
      | (out, Inr valid_data) \<Rightarrow> (out, Inr (self\<lparr>d_loaded_data := valid_data\<rparr>)))"

definition evalDetectMimicDataset_init ::
  "world \<Rightarrow> pydict list \<Rightarrow> (image \<Rightarrow> exn + 't option) \<Rightarrow> string
     \<Rightarrow> event list \<times> (exn + 't evalDetectMimicDataset)" where
  "evalDetectMimicDataset_init w loaded vp root =
     evalDetectMimicDataset_validate_dataset w
       \<lparr>d_loaded_data = loaded, d_root_path = root, d_vis_processor = vp\<rparr>"

definition evalDetectMimicDataset_len :: "'t evalDetectMimicDataset \<Rightarrow> int" where
  "evalDetectMimicDataset_len self = int (length (d_loaded_data self))"

text \<open>Lines 211 to 213: the opened image in grayscale, pasted on a new three-band image of its size.\<close>

definition unresized_rgb :: "world \<Rightarrow> image \<Rightarrow> image" where
  "unresized_rgb w opened =
     (let grayscale_image = convert_L w opened
      in paste (Image_new RGB (isize grayscale_image)) grayscale_image)"

definition evalDetectMimicDataset_getitem ::
  "world \<Rightarrow> 't evalDetectMimicDataset \<Rightarrow> int
     \<Rightarrow> 't evalDetectMimicDataset \<times> event list \<times> (exn + 't option \<times> string \<times> pyval)" where
  "evalDetectMimicDataset_getitem w self idx =
     (self, [],
      case py_index (d_loaded_data self) idx of
        Inl e \<Rightarrow> Inl e
      | Inr data \<Rightarrow>
          (case subscript data ''key'' of
             Inl e \<Rightarrow> Inl e
           | Inr img_id \<Rightarrow>
               (case subscript data ''objects'' of
                  Inl e \<Rightarrow> Inl e
                | Inr sent \<Rightarrow>
                    (case path_join (d_root_path self) img_id of
                       Inl e \<Rightarrow> Inl e
                     | Inr image_path \<Rightarrow>
                         (case image_open w image_path of
                            Inl e \<Rightarrow> Inl e
                          | Inr opened \<Rightarrow>
                              (case d_vis_processor self (unresized_rgb w opened) of
                                 Inl e \<Rightarrow> Inl e
                               | Inr img \<Rightarrow>
                                   Inr (img, ''[detection] '' @ py_format sent, img_id)))))))"

section \<open>The properties, in the words of the specification\<close>

text \<open>
  A record has a resolved image path that exists: the field is there, it is a string, and
  the root joined with it is a path of the file system.
\<close>

definition image_present :: "world \<Rightarrow> string \<Rightarrow> string \<Rightarrow> pydict \<Rightarrow> bool" where
  "image_present w root field item =
     (case subscript item field of
        Inl e \<Rightarrow> False
      | Inr v \<Rightarrow> (case path_join root v of Inl e \<Rightarrow> False | Inr image_path \<Rightarrow> path_exists w image_path))"

text \<open>A record is well formed for validation when the field of its path holds a string.\<close>

definition has_path :: "string \<Rightarrow> pydict \<Rightarrow> bool" where
  "has_path field item = (case item field of Some (PStr b) \<Rightarrow> True | _ \<Rightarrow> False)"

text \<open>The missing-file count of a list of records.\<close>

definition missing_files :: "world \<Rightarrow> string \<Rightarrow> string \<Rightarrow> pydict list \<Rightarrow> nat" where
  "missing_files w root field data = length (filter (\<lambda>item. \<not> image_present w root field item) data)"

text \<open>
  Loading the image of a record fails for the training dataset: the record has no
  \<^verbatim>\<open>image_path\<close>, or \<^verbatim>\<open>load_image\<close> returns \<^verbatim>\<open>None\<close>, or it raises an exception
  that \<^verbatim>\<open>except Exception\<close> catches.
\<close>

definition image_load_fails :: "world \<Rightarrow> 't MimicCxrDataset \<Rightarrow> pydict \<Rightarrow> bool" where
  "image_load_fails w self item =
     (case subscript item ''image_path'' of
        Inl e \<Rightarrow> True
      | Inr p \<Rightarrow>
          (case load_image w self p of
             (out, Inl e) \<Rightarrow> is_Exception e
           | (out, Inr None) \<Rightarrow> True
           | (out, Inr (Some img)) \<Rightarrow> False))"

text \<open>
  A failed attempt at an index, in the words of the claim: the record at the index is read
  (\<^verbatim>\<open>IndexError\<close> when there is none, \<^verbatim>\<open>KeyError\<close> when it has no \<^verbatim>\<open>image_path\<close>) and
  its image is loaded; an exception of the load is the outcome of the attempt, and otherwise
  the attempt goes on at the next index modulo the size of the dataset. It says nothing of
  the method's own code: it is built from the lookup of the record and from \<^verbatim>\<open>load_image\<close>.
\<close>

definition failed_attempt ::
  "world \<Rightarrow> 't MimicCxrDataset \<Rightarrow> int \<Rightarrow> event list \<times> (exn + 't attempt)" where
  "failed_attempt w self index =
     (case py_index (ann self) index of
        Inl e \<Rightarrow> ([], Inl IndexError)
      | Inr info \<Rightarrow>
          (case info ''image_path'' of
             None \<Rightarrow> ([], Inl (KeyError ''image_path''))
           | Some p \<Rightarrow>
               (case load_image w self p of
                  (out, Inl e) \<Rightarrow> (out, Inl e)
                | (out, Inr img) \<Rightarrow>
                    (out, Inr (Next ((index + 1) mod MimicCxrDataset_len self))))))"

text \<open>
  What a failed attempt at an index prints: the lines of \<^verbatim>\<open>load_image\<close>, and the line of
  the handler, with the index and the exception, when the attempt ended with an exception.
\<close>

definition failure_output :: "world \<Rightarrow> 't MimicCxrDataset \<Rightarrow> int \<Rightarrow> event list" where
  "failure_output w self index =
     (case failed_attempt w self index of
        (out, Inl e) \<Rightarrow> out @ [ErrorProcessingIndex index e]
      | (out, Inr a) \<Rightarrow> out)"

text \<open>
  The index of the \<open>k\<close>-th attempt of an access that started at \<open>index\<close>, when each attempt
  before it moved to the next index modulo the size.
\<close>

definition index_tried :: "'t MimicCxrDataset \<Rightarrow> int \<Rightarrow> nat \<Rightarrow> int" where
  "index_tried self index k =
     (if k = 0 then index else (index + int k) mod MimicCxrDataset_len self)"

section \<open>Example inputs\<close>

text \<open>
  A file system with two images under \<^verbatim>\<open>/data\<close>, an annotation file of three records
  of which the second has no image, a record of the detection kind, and two processors:
  one gives the size of the image it receives, one strips question marks.
\<close>

definition example_image :: image where
  "example_image = \<lparr>imode = L, isize = (2, 3), ipixel = (\<lambda>x y. [x + y])\<rparr>"

definition record_a :: pydict where
  "record_a = [''image_path'' \<mapsto> PStr ''a.jpg'', ''caption'' \<mapsto> PStr ''clear lungs'',
               ''image_id'' \<mapsto> PInt 5]"

definition record_b :: pydict where
  "record_b = [''image_path'' \<mapsto> PStr ''b.jpg'', ''caption'' \<mapsto> PStr ''small effusion'',
               ''image_id'' \<mapsto> PInt 6]"

definition record_17 :: pydict where
  "record_17 = [''image_path'' \<mapsto> PStr ''17.jpg'', ''caption'' \<mapsto> PStr ''cardiomegaly'',
                ''image_id'' \<mapsto> PStr ''17'']"

definition record_detect :: pydict where
  "record_detect = [''key'' \<mapsto> PStr ''a.jpg'', ''objects'' \<mapsto> PStr ''cat, dog'']"

definition example_world :: world where
  "example_world =
     \<lparr>path_exists = (\<lambda>p. p = ''/data/a.jpg'' \<or> p = ''/data/17.jpg''),
      image_open = (\<lambda>p. if p = ''/data/a.jpg'' \<or> p = ''/data/17.jpg'' then Inr example_image
                          else Inl (LibraryError ''No such file or directory'')),
      luma = (\<lambda>vs. case vs of [] \<Rightarrow> 0 | v # _ \<Rightarrow> v),
      resample = (\<lambda>sz im x y. ipixel im 0 0),
      json_load = (\<lambda>p. if p = ''ann.json'' then Inr [record_a, record_b, record_17]
                         else Inl (LibraryError ''No such file or directory''))\<rparr>"

definition size_processor :: "image \<Rightarrow> exn + (nat \<times> nat) option" where
  "size_processor im = Inr (Some (isize im))"

definition strip_processor :: "string \<Rightarrow> exn + string" where
  "strip_processor s = Inr (filter (\<lambda>c. c \<noteq> CHR ''?'') s)"

definition example_dataset :: "pydict list \<Rightarrow> (nat \<times> nat) MimicCxrDataset" where
  "example_dataset records =
     \<lparr>vis_root = ''/data'', vis_processor = size_processor, text_processor = strip_processor,
      ann = records,
      instruction_pool =
        [''Describe this image in detail'',
         ''Take a look at this image and describe what you notice'',
         ''Please provide a detailed description of the picture'',
         ''Could you describe the contents of this image for me?'']\<rparr>"

definition example_eval :: "pydict list \<Rightarrow> (nat \<times> nat) evalMIMICDataset" where
  "example_eval records =
     \<lparr>e_loaded_data = records, e_root_path = ''/data'', e_vis_processor = size_processor,
      e_instruction_pool =
        [''Describe this image in detail'',
         ''Take a look at this image and describe what you notice'',
         ''Please provide a detailed description of the picture'',
         ''Could you describe the contents of this image for me?'']\<rparr>"

definition example_detect :: "pydict list \<Rightarrow> (nat \<times> nat) evalDetectMimicDataset" where
  "example_detect records =
     \<lparr>d_loaded_data = records, d_root_path = ''/data'', d_vis_processor = size_processor\<rparr>"

text \<open>An image processor that raises.\<close>

definition failing_processor :: "image \<Rightarrow> exn + (nat \<times> nat) option" where
  "failing_processor im = Inl (LibraryError ''out of memory'')"

section \<open>Unfolding the model\<close>

lemmas example_defs =
  example_world_def example_dataset_def example_eval_def example_detect_def example_image_def
  record_a_def record_b_def record_17_def record_detect_def size_processor_def
  strip_processor_def

lemmas access_defs =
  try_body_def load_image_def subscript_def path_join_def py_index_def py_mod_def choice_def
  resized_rgb_def unresized_rgb_def convert_L_def resize_def Image_new_def paste_def
  MimicCxrDataset_len_def Let_def

section \<open>Validation keeps the records whose image exists\<close>

lemma validate_loop_paths:
  "\<forall>item \<in> set items. has_path field item \<Longrightarrow>
     \<exists>out'. validate_loop w root field items valid missing out =
       (out', Inr (valid @ filter (image_present w root field) items,
                   missing + missing_files w root field items))"
proof (induction items arbitrary: valid missing out)
  case Nil
  then show ?case by (simp add: missing_files_def)
next
  case (Cons item rest)
  from Cons.prems obtain b where b: "item field = Some (PStr b)"
    by (auto simp: has_path_def split: option.splits pyval.splits)
  from Cons.prems have rest: "\<forall>item \<in> set rest. has_path field item" by simp
  obtain p where p: "path_join root (PStr b) = Inr p"
    by (simp add: path_join_def)
  show ?case
  proof (cases "path_exists w p")
    case True
    with Cons.IH [OF rest, of "valid @ [item]" missing out] b p show ?thesis
      by (simp add: subscript_def image_present_def missing_files_def)
  next
    case False
    with Cons.IH [OF rest, of valid "missing + 1"] b p show ?thesis
      by (auto simp add: subscript_def image_present_def missing_files_def)
  qed
qed

lemma validate_dataset_paths:
  assumes "\<forall>item \<in> set data. has_path field item"
  shows "\<exists>out'. validate_dataset w label root field data =
       (out' @ [ValidationComplete label, TotalSamples (length data),
                MissingFiles (missing_files w root field data),
                ValidSamples (length (filter (image_present w root field) data))],
        Inr (filter (image_present w root field) data))"
proof -
  from validate_loop_paths [OF assms, of w root "[]" 0 "[Validating label]"]
  obtain out' where "validate_loop w root field data [] 0 [Validating label] =
       (out', Inr (filter (image_present w root field) data, missing_files w root field data))"
    by auto
  then show ?thesis
    by (simp add: validate_dataset_def)
qed

lemma filter_split_length:
  "length (filter P xs) + length (filter (\<lambda>x. \<not> P x) xs) = length xs"
  by (induction xs) auto

lemma valid_count:
  "int (length (filter (image_present w root field) data)) =
     int (length data) - int (missing_files w root field data)"
  using filter_split_length [of "image_present w root field" data]
  by (simp add: missing_files_def)

text \<open>
  C1. For a list of records that each hold a string in the field of the path, the
  construction of each of the three datasets succeeds, and the validated list is the input
  list filtered, in its order, by the existence of the resolved image path
  (\<^verbatim>\<open>vis_root\<close> or \<^verbatim>\<open>root_path\<close> joined with \<^verbatim>\<open>image_path\<close>, with \<^verbatim>\<open>key\<close> for the
  detection dataset). The size is the number of input records minus the number of records
  whose file is missing, which is the count the report prints. For the training dataset
  the input list is what \<^verbatim>\<open>json.load\<close> reads from the annotation file.
\<close>

theorem validation_keeps_present_records:
  "(json_load w ann_path = Inr data \<and> (\<forall>item \<in> set data. has_path ''image_path'' item) \<longrightarrow>
      (\<exists>out ds. MimicCxrDataset_init w vp tp root ann_path = (out, Inr ds)
         \<and> ann ds = filter (image_present w root ''image_path'') data
         \<and> MimicCxrDataset_len ds = int (length data) - int (missing_files w root ''image_path'' data)
         \<and> MissingFiles (missing_files w root ''image_path'' data) \<in> set out))
   \<and> ((\<forall>item \<in> set data. has_path ''image_path'' item) \<longrightarrow>
      (\<exists>out ds. evalMIMICDataset_init w data vp root = (out, Inr ds)
         \<and> e_loaded_data ds = filter (image_present w root ''image_path'') data
         \<and> evalMIMICDataset_len ds = int (length data) - int (missing_files w root ''image_path'' data)
         \<and> MissingFiles (missing_files w root ''image_path'' data) \<in> set out))
   \<and> ((\<forall>item \<in> set data. has_path ''key'' item) \<longrightarrow>
      (\<exists>out ds. evalDetectMimicDataset_init w data vp root = (out, Inr ds)
         \<and> d_loaded_data ds = filter (image_present w root ''key'') data
         \<and> evalDetectMimicDataset_len ds = int (length data) - int (missing_files w root ''key'' data)
         \<and> MissingFiles (missing_files w root ''key'' data) \<in> set out))"
proof (intro conjI impI)
  assume a: "json_load w ann_path = Inr data \<and> (\<forall>item \<in> set data. has_path ''image_path'' item)"
  then obtain out' where "validate_dataset w ''Dataset'' root ''image_path'' data =
       (out' @ [ValidationComplete ''Dataset'', TotalSamples (length data),
                MissingFiles (missing_files w root ''image_path'' data),
                ValidSamples (length (filter (image_present w root ''image_path'') data))],
        Inr (filter (image_present w root ''image_path'') data))"
    using validate_dataset_paths [of data "''image_path''" w "''Dataset''" root] by blast
  with a show "\<exists>out ds. MimicCxrDataset_init w vp tp root ann_path = (out, Inr ds)
         \<and> ann ds = filter (image_present w root ''image_path'') data
         \<and> MimicCxrDataset_len ds = int (length data) - int (missing_files w root ''image_path'' data)
         \<and> MissingFiles (missing_files w root ''image_path'' data) \<in> set out"
    by (simp add: MimicCxrDataset_init_def MimicCxrDataset_validate_dataset_def
          MimicCxrDataset_len_def valid_count)
next
  assume a: "\<forall>item \<in> set data. has_path ''image_path'' item"
  then obtain out' where "validate_dataset w ''evalMIMIC'' root ''image_path'' data =
       (out' @ [ValidationComplete ''evalMIMIC'', TotalSamples (length data),
                MissingFiles (missing_files w root ''image_path'' data),
                ValidSamples (length (filter (image_present w root ''image_path'') data))],
        Inr (filter (image_present w root ''image_path'') data))"
    using validate_dataset_paths [of data "''image_path''" w "''evalMIMIC''" root] by blast
  then show "\<exists>out ds. evalMIMICDataset_init w data vp root = (out, Inr ds)
         \<and> e_loaded_data ds = filter (image_present w root ''image_path'') data
         \<and> evalMIMICDataset_len ds = int (length data) - int (missing_files w root ''image_path'' data)
         \<and> MissingFiles (missing_files w root ''image_path'' data) \<in> set out"
    by (simp add: evalMIMICDataset_init_def evalMIMICDataset_validate_dataset_def
          evalMIMICDataset_len_def valid_count)
next
  assume a: "\<forall>item \<in> set data. has_path ''key'' item"
  then obtain out' where "validate_dataset w ''evalDetectMimic'' root ''key'' data =
       (out' @ [ValidationComplete ''evalDetectMimic'', TotalSamples (length data),
                MissingFiles (missing_files w root ''key'' data),
                ValidSamples (length (filter (image_present w root ''key'') data))],
        Inr (filter (image_present w root ''key'') data))"
    using validate_dataset_paths [of data "''key''" w "''evalDetectMimic''" root] by blast
  then show "\<exists>out ds. evalDetectMimicDataset_init w data vp root = (out, Inr ds)
         \<and> d_loaded_data ds = filter (image_present w root ''key'') data
         \<and> evalDetectMimicDataset_len ds = int (length data) - int (missing_files w root ''key'' data)
         \<and> MissingFiles (missing_files w root ''key'' data) \<in> set out"
    by (simp add: evalDetectMimicDataset_init_def evalDetectMimicDataset_validate_dataset_def
          evalDetectMimicDataset_len_def valid_count)
qed

lemma example_present [simp]:
  "image_present example_world ''/data'' ''image_path'' record_a"
  "\<not> image_present example_world ''/data'' ''image_path'' record_b"
  "image_present example_world ''/data'' ''image_path'' record_17"
  "image_present example_world ''/data'' ''key'' record_detect"
  by (simp_all add: image_present_def subscript_def path_join_def example_world_def
        record_a_def record_b_def record_17_def record_detect_def)

lemma example_has_path [simp]:
  "has_path ''image_path'' record_a" "has_path ''image_path'' record_b"
  "has_path ''image_path'' record_17" "has_path ''key'' record_detect"
  by (simp_all add: has_path_def record_a_def record_b_def record_17_def record_detect_def)

text \<open>
  The scenario of the specification: three records, one image missing, two validated
  records and one missing file reported.
\<close>

theorem validation_keeps_present_records_witness:
  "(json_load example_world ''ann.json'' = Inr [record_a, record_b, record_17]
      \<and> list_all (has_path ''image_path'') [record_a, record_b, record_17]
      \<and> (\<exists>out ds. MimicCxrDataset_init example_world size_processor strip_processor ''/data'' ''ann.json''
             = (out, Inr ds)
           \<and> ann ds = [record_a, record_17] \<and> MimicCxrDataset_len ds = 3 - 1
           \<and> MissingFiles 1 \<in> set out))
   \<and> (\<exists>out ds. evalMIMICDataset_init example_world [record_a, record_b, record_17] size_processor ''/data''
             = (out, Inr ds)
           \<and> e_loaded_data ds = [record_a, record_17] \<and> evalMIMICDataset_len ds = 3 - 1)
   \<and> (list_all (has_path ''key'') [record_detect]
      \<and> (\<exists>out ds. evalDetectMimicDataset_init example_world [record_detect] size_processor ''/data''
             = (out, Inr ds)
           \<and> d_loaded_data ds = [record_detect] \<and> evalDetectMimicDataset_len ds = 1 - 0))"
proof -
  have j: "json_load example_world ''ann.json'' = Inr [record_a, record_b, record_17]"
    by (simp add: example_world_def)
  have p: "\<forall>item \<in> set [record_a, record_b, record_17]. has_path ''image_path'' item"
    by simp
  have k: "\<forall>item \<in> set [record_detect]. has_path ''key'' item"
    by simp
  note t = validation_keeps_present_records
    [of example_world "''ann.json''" "[record_a, record_b, record_17]" size_processor
        strip_processor "''/data''"]
  note d = validation_keeps_present_records
    [of example_world "''ann.json''" "[record_detect]" size_processor strip_processor "''/data''"]
  from t [THEN conjunct1] j p have 1: "\<exists>out ds. MimicCxrDataset_init example_world size_processor strip_processor ''/data'' ''ann.json''
             = (out, Inr ds)
           \<and> ann ds = [record_a, record_17] \<and> MimicCxrDataset_len ds = 3 - 1
           \<and> MissingFiles 1 \<in> set out"
    by (auto simp add: missing_files_def)
  from t [THEN conjunct2, THEN conjunct1] p have 2: "\<exists>out ds. evalMIMICDataset_init example_world [record_a, record_b, record_17] size_processor ''/data''
             = (out, Inr ds)
           \<and> e_loaded_data ds = [record_a, record_17] \<and> evalMIMICDataset_len ds = 3 - 1"
    by (auto simp add: missing_files_def)
  from d [THEN conjunct2, THEN conjunct2] k have 3: "\<exists>out ds. evalDetectMimicDataset_init example_world [record_detect] size_processor ''/data''
             = (out, Inr ds)
           \<and> d_loaded_data ds = [record_detect] \<and> evalDetectMimicDataset_len ds = 1 - 0"
    by (auto simp add: missing_files_def)
  have p': "list_all (has_path ''image_path'') [record_a, record_b, record_17]"
    and k': "list_all (has_path ''key'') [record_detect]"
    by simp_all
  from j p' k' 1 2 3 show ?thesis by blast
qed

section \<open>The retry loop of the training dataset\<close>

lemma py_index_mem: "py_index xs i = Inr x \<Longrightarrow> x \<in> set xs"
  by (auto simp: py_index_def Let_def split: if_splits)

lemma try_body_failed:
  assumes "ann self \<noteq> []" and "\<forall>item \<in> set (ann self). image_load_fails w self item"
  shows "try_body w self r i = failed_attempt w self i"
proof (cases "py_index (ann self) i")
  case (Inl e)
  then have "e = IndexError" by (auto simp: py_index_def Let_def split: if_splits)
  with Inl show ?thesis by (simp add: try_body_def failed_attempt_def)
next
  case (Inr info)
  then have "info \<in> set (ann self)" by (rule py_index_mem)
  with assms(2) have f: "image_load_fails w self info" by blast
  from assms(1) have n: "MimicCxrDataset_len self \<noteq> 0" by (simp add: MimicCxrDataset_len_def)
  show ?thesis
  proof (cases "info ''image_path''")
    case None
    with Inr show ?thesis by (simp add: try_body_def failed_attempt_def subscript_def)
  next
    case (Some p)
    obtain out r' where l: "load_image w self p = (out, r')" by (cases "load_image w self p")
    with f Some have "(\<exists>e. r' = Inl e \<and> is_Exception e) \<or> r' = Inr None"
      by (auto simp: image_load_fails_def subscript_def split: sum.splits option.splits)
    with Inr Some l n show ?thesis
      by (auto simp: try_body_def failed_attempt_def subscript_def py_mod_def)
  qed
qed

lemma failed_attempt_outcome:
  assumes "\<forall>item \<in> set (ann self). image_load_fails w self item"
  shows "(\<exists>out e. failed_attempt w self i = (out, Inl e) \<and> is_Exception e)
       \<or> (\<exists>out. failed_attempt w self i =
                  (out, Inr (Next ((i + 1) mod MimicCxrDataset_len self))))"
proof (cases "py_index (ann self) i")
  case (Inl e)
  then show ?thesis by (simp add: failed_attempt_def)
next
  case (Inr info)
  then have "info \<in> set (ann self)" by (rule py_index_mem)
  with assms have f: "image_load_fails w self info" by blast
  show ?thesis
  proof (cases "info ''image_path''")
    case None
    with Inr show ?thesis by (simp add: failed_attempt_def)
  next
    case (Some p)
    obtain out r' where l: "load_image w self p = (out, r')" by (cases "load_image w self p")
    with f Some have "(\<exists>e. r' = Inl e \<and> is_Exception e) \<or> r' = Inr None"
      by (auto simp: image_load_fails_def subscript_def split: sum.splits option.splits)
    with Inr Some l show ?thesis
      by (auto simp: failed_attempt_def)
  qed
qed

lemma loop_fail_step:
  assumes "ann self \<noteq> []" and "\<forall>item \<in> set (ann self). image_load_fails w self item"
    and "attempts < 10"
  shows "getitem_loop w self rnd i attempts =
     (failure_output w self i
        @ fst (getitem_loop w self rnd ((i + 1) mod MimicCxrDataset_len self) (Suc attempts)),
      snd (getitem_loop w self rnd ((i + 1) mod MimicCxrDataset_len self) (Suc attempts)))"
proof -
  from assms(1) have n: "MimicCxrDataset_len self \<noteq> 0" by (simp add: MimicCxrDataset_len_def)
  note t = try_body_failed [OF assms(1,2), of "rnd attempts" i]
  from failed_attempt_outcome [OF assms(2), of i]
  consider out e where "failed_attempt w self i = (out, Inl e)" "is_Exception e"
    | out where "failed_attempt w self i =
        (out, Inr (Next ((i + 1) mod MimicCxrDataset_len self)))"
    by blast
  then show ?thesis
  proof cases
    case 1
    with assms(3) n t show ?thesis
      by (subst getitem_loop.simps) (simp add: failure_output_def py_mod_def split: prod.splits)
  next
    case 2
    with assms(3) t show ?thesis
      by (subst getitem_loop.simps) (simp add: failure_output_def split: prod.splits)
  qed
qed

lemma index_tried_Suc:
  "index_tried self i (Suc k) = (index_tried self i k + 1) mod MimicCxrDataset_len self"
  by (simp add: index_tried_def mod_simps algebra_simps)

lemma index_tried_shift:
  "index_tried self ((i + 1) mod MimicCxrDataset_len self) k = index_tried self i (Suc k)"
  by (simp add: index_tried_def mod_simps algebra_simps)

lemma loop_all_fail:
  assumes "ann self \<noteq> []" and "\<forall>item \<in> set (ann self). image_load_fails w self item"
  shows "attempts + d = 10 \<Longrightarrow>
     getitem_loop w self rnd i attempts =
       (concat (map (\<lambda>k. failure_output w self (index_tried self i k)) [0..<d]),
        Inl (RuntimeError ''Failed to load valid sample after 10 attempts''))"
proof (induction d arbitrary: attempts i)
  case 0
  then show ?case by (subst getitem_loop.simps) simp
next
  case (Suc d)
  then have lt: "attempts < 10" and eq: "Suc attempts + d = 10" by simp_all
  have u: "[0..<Suc d] = 0 # map Suc [0..<d]"
    by (simp add: upt_conv_Cons map_Suc_upt del: upt_Suc)
  show ?case
    unfolding loop_fail_step [OF assms lt] Suc.IH [OF eq] u
    by (simp add: index_tried_shift comp_def) (simp add: index_tried_def)
qed

text \<open>
  C2. With at least one validated record, when loading the image fails for every record,
  \<^verbatim>\<open>__getitem__\<close> ends with the \<^verbatim>\<open>RuntimeError\<close> of the exhausted retries and leaves
  the dataset as it was. It makes exactly ten attempts, at the counter values 0 to 9; the
  attempt at the counter value \<open>k\<close> is at the index \<open>index_tried self index k\<close>, which is
  the index of the attempt before it plus one, modulo the size. Each attempt is a failed
  attempt: the body of the \<^verbatim>\<open>try\<close> reads the record at that index and loads its image,
  and either ends with an exception that the handler catches or continues with the next
  index modulo the size; the loop then goes on at that next index with the counter raised
  by one. What the access prints is what those ten failed attempts print, in their order.
  At the counter value 10 the loop makes no attempt and raises.
\<close>

theorem getitem_exhausts_retries:
  assumes "ann self \<noteq> []" and "\<forall>item \<in> set (ann self). image_load_fails w self item"
  shows "MimicCxrDataset_getitem w self rnd index =
           (self,
            concat (map (\<lambda>k. failure_output w self (index_tried self index k)) [0..<10]),
            Inl (RuntimeError ''Failed to load valid sample after 10 attempts''))
     \<and> (\<forall>k<10.
           try_body w self (rnd k) (index_tried self index k) =
             failed_attempt w self (index_tried self index k)
         \<and> ((\<exists>out e. try_body w self (rnd k) (index_tried self index k) = (out, Inl e)
                 \<and> is_Exception e)
              \<or> (\<exists>out. try_body w self (rnd k) (index_tried self index k) =
                    (out, Inr (Next (index_tried self index (Suc k))))))
         \<and> index_tried self index (Suc k) =
             (index_tried self index k + 1) mod MimicCxrDataset_len self
         \<and> getitem_loop w self rnd (index_tried self index k) k =
             (failure_output w self (index_tried self index k)
                @ fst (getitem_loop w self rnd (index_tried self index (Suc k)) (Suc k)),
              snd (getitem_loop w self rnd (index_tried self index (Suc k)) (Suc k))))
     \<and> getitem_loop w self rnd (index_tried self index 10) 10 =
           ([], Inl (RuntimeError ''Failed to load valid sample after 10 attempts''))"
proof (intro conjI allI impI)
  show "MimicCxrDataset_getitem w self rnd index =
           (self,
            concat (map (\<lambda>k. failure_output w self (index_tried self index k)) [0..<10]),
            Inl (RuntimeError ''Failed to load valid sample after 10 attempts''))"
    using loop_all_fail [OF assms, of 0 10 rnd index]
    by (simp add: MimicCxrDataset_getitem_def)
next
  fix k :: nat
  show "try_body w self (rnd k) (index_tried self index k) =
          failed_attempt w self (index_tried self index k)"
    by (rule try_body_failed [OF assms])
next
  fix k :: nat
  show "(\<exists>out e. try_body w self (rnd k) (index_tried self index k) = (out, Inl e)
            \<and> is_Exception e)
        \<or> (\<exists>out. try_body w self (rnd k) (index_tried self index k) =
              (out, Inr (Next (index_tried self index (Suc k)))))"
    using failed_attempt_outcome [OF assms(2), of "index_tried self index k"]
    by (simp add: try_body_failed [OF assms] index_tried_Suc)
next
  fix k :: nat
  show "index_tried self index (Suc k) =
          (index_tried self index k + 1) mod MimicCxrDataset_len self"
    by (rule index_tried_Suc)
next
  fix k :: nat
  assume "k < 10"
  then show "getitem_loop w self rnd (index_tried self index k) k =
             (failure_output w self (index_tried self index k)
                @ fst (getitem_loop w self rnd (index_tried self index (Suc k)) (Suc k)),
              snd (getitem_loop w self rnd (index_tried self index (Suc k)) (Suc k)))"
    using loop_fail_step [OF assms, of k rnd "index_tried self index k"]
    by (simp add: index_tried_Suc)
next
  show "getitem_loop w self rnd (index_tried self index 10) 10 =
           ([], Inl (RuntimeError ''Failed to load valid sample after 10 attempts''))"
    by (subst getitem_loop.simps) simp
qed

text \<open>
  Two validated records whose images have gone since, accessed at index 5. The first
  attempt finds no record at index 5 and the handler moves to index 0; the nine attempts
  that follow find no file, at the indices 0, 1, 0, 1 and so on, each moving to the next
  index modulo 2. Ten lines are printed, one for each attempt, and the access raises.
\<close>

theorem getitem_exhausts_retries_witness:
  "ann (example_dataset [record_a, record_17]) \<noteq> []
   \<and> list_all (image_load_fails (example_world\<lparr>path_exists := (\<lambda>p. False)\<rparr>) (example_dataset [record_a, record_17])) (ann (example_dataset [record_a, record_17]))
   \<and> MimicCxrDataset_getitem (example_world\<lparr>path_exists := (\<lambda>p. False)\<rparr>) (example_dataset [record_a, record_17]) (\<lambda>k. 0) 5 =
       ((example_dataset [record_a, record_17]),
        [ErrorProcessingIndex 5 IndexError,
        WarningImageNotFound ''/data/a.jpg'', WarningImageNotFound ''/data/17.jpg'',
        WarningImageNotFound ''/data/a.jpg'', WarningImageNotFound ''/data/17.jpg'',
        WarningImageNotFound ''/data/a.jpg'', WarningImageNotFound ''/data/17.jpg'',
        WarningImageNotFound ''/data/a.jpg'', WarningImageNotFound ''/data/17.jpg'',
        WarningImageNotFound ''/data/a.jpg''],
        Inl (RuntimeError ''Failed to load valid sample after 10 attempts''))
   \<and> concat (map (\<lambda>k. failure_output (example_world\<lparr>path_exists := (\<lambda>p. False)\<rparr>) (example_dataset [record_a, record_17])
                          (index_tried (example_dataset [record_a, record_17]) 5 k)) [0..<10]) =
       [ErrorProcessingIndex 5 IndexError,
        WarningImageNotFound ''/data/a.jpg'', WarningImageNotFound ''/data/17.jpg'',
        WarningImageNotFound ''/data/a.jpg'', WarningImageNotFound ''/data/17.jpg'',
        WarningImageNotFound ''/data/a.jpg'', WarningImageNotFound ''/data/17.jpg'',
        WarningImageNotFound ''/data/a.jpg'', WarningImageNotFound ''/data/17.jpg'',
        WarningImageNotFound ''/data/a.jpg'']
   \<and> try_body (example_world\<lparr>path_exists := (\<lambda>p. False)\<rparr>) (example_dataset [record_a, record_17]) 0 5 = ([], Inl IndexError)
   \<and> try_body (example_world\<lparr>path_exists := (\<lambda>p. False)\<rparr>) (example_dataset [record_a, record_17]) 0 0 =
       ([WarningImageNotFound ''/data/a.jpg''], Inr (Next 1))
   \<and> try_body (example_world\<lparr>path_exists := (\<lambda>p. False)\<rparr>) (example_dataset [record_a, record_17]) 0 1 =
       ([WarningImageNotFound ''/data/17.jpg''], Inr (Next 0))
   \<and> map (index_tried (example_dataset [record_a, record_17]) 5) [0, 1, 2, 3, 4, 5, 6, 7, 8, 9, 10] =
       [5, 0, 1, 0, 1, 0, 1, 0, 1, 0, 1]"
proof -
  have n: "ann (example_dataset [record_a, record_17]) \<noteq> []"
    by (simp add: example_dataset_def)
  have f: "\<forall>item \<in> set (ann (example_dataset [record_a, record_17])).
         image_load_fails (example_world\<lparr>path_exists := (\<lambda>p. False)\<rparr>)
           (example_dataset [record_a, record_17]) item"
    by (simp add: example_dataset_def image_load_fails_def load_image_def subscript_def
          path_join_def record_a_def record_17_def example_world_def)
  from f have f': "list_all (image_load_fails (example_world\<lparr>path_exists := (\<lambda>p. False)\<rparr>) (example_dataset [record_a, record_17])) (ann (example_dataset [record_a, record_17]))"
    by (simp only: list_all_iff)
  have g: "MimicCxrDataset_getitem (example_world\<lparr>path_exists := (\<lambda>p. False)\<rparr>) (example_dataset [record_a, record_17]) (\<lambda>k. 0) 5 =
       ((example_dataset [record_a, record_17]),
        [ErrorProcessingIndex 5 IndexError,
        WarningImageNotFound ''/data/a.jpg'', WarningImageNotFound ''/data/17.jpg'',
        WarningImageNotFound ''/data/a.jpg'', WarningImageNotFound ''/data/17.jpg'',
        WarningImageNotFound ''/data/a.jpg'', WarningImageNotFound ''/data/17.jpg'',
        WarningImageNotFound ''/data/a.jpg'', WarningImageNotFound ''/data/17.jpg'',
        WarningImageNotFound ''/data/a.jpg''],
        Inl (RuntimeError ''Failed to load valid sample after 10 attempts''))"
    by (simp add: MimicCxrDataset_getitem_def getitem_loop.simps access_defs example_defs)
  from getitem_exhausts_retries [OF n f, of "\<lambda>k. 0" 5, THEN conjunct1]
  have "MimicCxrDataset_getitem (example_world\<lparr>path_exists := (\<lambda>p. False)\<rparr>) (example_dataset [record_a, record_17]) (\<lambda>k. 0) 5 =
       ((example_dataset [record_a, record_17]),
        concat (map (\<lambda>k. failure_output (example_world\<lparr>path_exists := (\<lambda>p. False)\<rparr>) (example_dataset [record_a, record_17])
                          (index_tried (example_dataset [record_a, record_17]) 5 k)) [0..<10]),
        Inl (RuntimeError ''Failed to load valid sample after 10 attempts''))"
    .
  with g have c: "concat (map (\<lambda>k. failure_output (example_world\<lparr>path_exists := (\<lambda>p. False)\<rparr>) (example_dataset [record_a, record_17])
                          (index_tried (example_dataset [record_a, record_17]) 5 k)) [0..<10]) =
       [ErrorProcessingIndex 5 IndexError,
        WarningImageNotFound ''/data/a.jpg'', WarningImageNotFound ''/data/17.jpg'',
        WarningImageNotFound ''/data/a.jpg'', WarningImageNotFound ''/data/17.jpg'',
        WarningImageNotFound ''/data/a.jpg'', WarningImageNotFound ''/data/17.jpg'',
        WarningImageNotFound ''/data/a.jpg'', WarningImageNotFound ''/data/17.jpg'',
        WarningImageNotFound ''/data/a.jpg'']"
    by (simp only: prod.inject)
  have a1: "try_body (example_world\<lparr>path_exists := (\<lambda>p. False)\<rparr>) (example_dataset [record_a, record_17]) 0 5 = ([], Inl IndexError)"
    and a2: "try_body (example_world\<lparr>path_exists := (\<lambda>p. False)\<rparr>) (example_dataset [record_a, record_17]) 0 0 =
       ([WarningImageNotFound ''/data/a.jpg''], Inr (Next 1))"
    and a3: "try_body (example_world\<lparr>path_exists := (\<lambda>p. False)\<rparr>) (example_dataset [record_a, record_17]) 0 1 =
       ([WarningImageNotFound ''/data/17.jpg''], Inr (Next 0))"
    by (simp_all add: access_defs example_defs)
  have t: "map (index_tried (example_dataset [record_a, record_17]) 5) [0, 1, 2, 3, 4, 5, 6, 7, 8, 9, 10] =
       [5, 0, 1, 0, 1, 0, 1, 0, 1, 0, 1]"
    by (simp add: index_tried_def MimicCxrDataset_len_def example_dataset_def)
  from n f' g c a1 a2 a3 t show ?thesis
    by blast
qed

section \<open>An empty training dataset\<close>

text \<open>
  C9. With no validated record, the first \<^verbatim>\<open>self.ann[index]\<close> raises
  \<^verbatim>\<open>IndexError\<close>, whatever the index; the handler prints and then takes the next index
  modulo the size, which is zero: \<^verbatim>\<open>__getitem__\<close> ends with
  \<^verbatim>\<open>ZeroDivisionError\<close> after that one attempt, not with the error of the exhausted
  retries and not with the \<^verbatim>\<open>IndexError\<close>.
\<close>

theorem getitem_empty_zero_division:
  "ann self = [] \<Longrightarrow>
     MimicCxrDataset_getitem w self rnd index =
       (self, [ErrorProcessingIndex index IndexError], Inl ZeroDivisionError)"
  by (simp add: MimicCxrDataset_getitem_def getitem_loop.simps [of w self rnd index 0]
        try_body_def py_index_def py_mod_def MimicCxrDataset_len_def)

theorem getitem_empty_zero_division_witness:
  "ann (example_dataset []) = [] \<and>
   MimicCxrDataset_getitem example_world (example_dataset []) (\<lambda>k. 0) 3 =
     (example_dataset [], [ErrorProcessingIndex 3 IndexError], Inl ZeroDivisionError)"
proof -
  have h: "ann (example_dataset []) = []" by (simp add: example_dataset_def)
  from h getitem_empty_zero_division [OF h, of example_world "\<lambda>k. 0" 3] show ?thesis
    by blast
qed

section \<open>The samples of the training dataset\<close>

lemma loop_return:
  "getitem_loop w self rnd index attempts = (out, Inr s) \<Longrightarrow>
     \<exists>j r out'. try_body w self r j = (out', Inr (Return s))"
proof (induction "10 - attempts" arbitrary: attempts index out)
  case 0
  then have "\<not> attempts < 10" by simp
  with "0.prems" show ?case
    by (subst (asm) getitem_loop.simps) simp
next
  case (Suc d)
  then have lt: "attempts < 10" and d: "d = 10 - Suc attempts" by simp_all
  obtain o1 r1 where tb: "try_body w self (rnd attempts) index = (o1, r1)"
    by (cases "try_body w self (rnd attempts) index")
  note ih = Suc.hyps(1) [OF d]
  show ?case
  proof (cases r1)
    case (Inl e)
    with Suc.prems lt tb ih show ?thesis
      by (subst (asm) getitem_loop.simps)
         (auto simp: py_mod_def split: if_splits prod.splits)
  next
    case (Inr a)
    show ?thesis
    proof (cases a)
      case (Next index')
      with Suc.prems lt tb Inr ih show ?thesis
        by (subst (asm) getitem_loop.simps) (auto split: prod.splits)
    next
      case (Return s')
      with Suc.prems lt tb Inr have "s' = s"
        by (subst (asm) getitem_loop.simps) simp
      with tb Inr Return show ?thesis by blast
    qed
  qed
qed

lemma try_body_Return:
  assumes "try_body w self r j = (out, Inr (Return s))"
  shows "\<exists>info p template processed.
           py_index (ann self) j = Inr info
         \<and> info ''image_path'' = Some p
         \<and> load_image w self p = (out, Inr (Some (image_sample s)))
         \<and> choice r (instruction_pool self) = Inr template
         \<and> text_processor self template = Inr processed
         \<and> instruction_input s = ''<Img><ImageHere></Img> '' @ processed
         \<and> info ''caption'' = Some (answer s)
         \<and> info ''image_id'' = Some (image_id s)"
  using assms
  by (auto simp: try_body_def subscript_def split: sum.splits option.splits prod.splits)

lemma init_fields:
  assumes "MimicCxrDataset_init w vp tp root ann_path = (out, Inr self)"
  shows "instruction_pool self =
           [''Describe this image in detail'',
            ''Take a look at this image and describe what you notice'',
            ''Please provide a detailed description of the picture'',
            ''Could you describe the contents of this image for me?'']"
    and "text_processor self = tp" and "vis_processor self = vp" and "vis_root self = root"
  using assms
  by (auto simp: MimicCxrDataset_init_def MimicCxrDataset_validate_dataset_def
        split: sum.splits prod.splits)

lemma choice_mem: "choice r xs = Inr x \<Longrightarrow> x \<in> set xs"
  by (auto simp: choice_def split: if_splits)

text \<open>
  C3. A sample that \<^verbatim>\<open>__getitem__\<close> of a constructed training dataset returns comes from
  one validated record: its image is what \<^verbatim>\<open>load_image\<close> gives for the record's
  \<^verbatim>\<open>image_path\<close>, its answer is the record's caption, its \<^verbatim>\<open>image_id\<close> is the record's.
  Its instruction is the image-placeholder tag \<^verbatim>\<open><Img><ImageHere></Img>\<close>, the space that
  separates it, and then the text processor's result on one of the four templates.
\<close>

theorem training_sample_fields:
  assumes "MimicCxrDataset_init w0 vp tp root ann_path = (out0, Inr self)"
    and "MimicCxrDataset_getitem w self rnd index = (self', out, Inr s)"
  shows "\<exists>info \<in> set (ann self).
           \<exists>template \<in> set [''Describe this image in detail'',
                             ''Take a look at this image and describe what you notice'',
                             ''Please provide a detailed description of the picture'',
                             ''Could you describe the contents of this image for me?''].
           \<exists>processed.
             tp template = Inr processed
           \<and> instruction_input s = ''<Img><ImageHere></Img>'' @ '' '' @ processed
           \<and> info ''caption'' = Some (answer s)
           \<and> info ''image_id'' = Some (image_id s)
           \<and> (\<exists>p o1. info ''image_path'' = Some p
                  \<and> load_image w self p = (o1, Inr (Some (image_sample s))))"
proof -
  from assms(2) obtain o2 where "getitem_loop w self rnd index 0 = (o2, Inr s)"
    by (auto simp: MimicCxrDataset_getitem_def split: prod.splits)
  then obtain j r out' where "try_body w self r j = (out', Inr (Return s))"
    using loop_return by blast
  from try_body_Return [OF this] obtain info p template processed where
    f: "py_index (ann self) j = Inr info" "info ''image_path'' = Some p"
      "load_image w self p = (out', Inr (Some (image_sample s)))"
      "choice r (instruction_pool self) = Inr template"
      "text_processor self template = Inr processed"
      "instruction_input s = ''<Img><ImageHere></Img> '' @ processed"
      "info ''caption'' = Some (answer s)" "info ''image_id'' = Some (image_id s)"
    by blast
  from f(1) have m: "info \<in> set (ann self)" by (rule py_index_mem)
  from f(4) have "template \<in> set (instruction_pool self)" by (rule choice_mem)
  with init_fields(1) [OF assms(1)] have t: "template \<in> set [''Describe this image in detail'',
                             ''Take a look at this image and describe what you notice'',
                             ''Please provide a detailed description of the picture'',
                             ''Could you describe the contents of this image for me?'']"
    by simp
  from f(5) init_fields(2) [OF assms(1)] have p: "tp template = Inr processed" by simp
  from f(6) have i: "instruction_input s = ''<Img><ImageHere></Img>'' @ '' '' @ processed"
    by simp
  from m t p i f(2,3,7,8) show ?thesis by blast
qed

lemma example_init:
  "MimicCxrDataset_init example_world size_processor strip_processor ''/data'' ''ann.json'' =
     ([Validating ''Dataset'', Missing ''/data/b.jpg'', ValidationComplete ''Dataset'',
       TotalSamples 3, MissingFiles 1, ValidSamples 2],
      Inr (example_dataset [record_a, record_17]))"
  by (simp add: MimicCxrDataset_init_def MimicCxrDataset_validate_dataset_def
        validate_dataset_def subscript_def path_join_def example_defs)

lemma example_getitem:
  "MimicCxrDataset_getitem example_world (example_dataset [record_a, record_17]) (\<lambda>k. 3) 1 =
     (example_dataset [record_a, record_17], [],
      Inr \<lparr>image_sample = (448, 448),
           instruction_input = ''<Img><ImageHere></Img> Could you describe the contents of this image for me'',
           answer = PStr ''cardiomegaly'', image_id = PStr ''17''\<rparr>)"
  by (simp add: MimicCxrDataset_getitem_def getitem_loop.simps [of _ _ _ _ 0] access_defs
        example_defs)


text \<open>
  The dataset of the example annotation file, accessed at index 1 with the draw 3: the
  fourth template, its question mark stripped by the processor.
\<close>

theorem training_sample_fields_witness:
  "MimicCxrDataset_init example_world size_processor strip_processor ''/data'' ''ann.json'' =
     ([Validating ''Dataset'', Missing ''/data/b.jpg'', ValidationComplete ''Dataset'',
       TotalSamples 3, MissingFiles 1, ValidSamples 2],
      Inr (example_dataset [record_a, record_17]))
   \<and> MimicCxrDataset_getitem example_world (example_dataset [record_a, record_17]) (\<lambda>k. 3) 1 =
     (example_dataset [record_a, record_17], [],
      Inr \<lparr>image_sample = (448, 448),
           instruction_input = ''<Img><ImageHere></Img> Could you describe the contents of this image for me'',
           answer = PStr ''cardiomegaly'', image_id = PStr ''17''\<rparr>)
   \<and> (\<exists>info \<in> set [record_a, record_17].
        \<exists>template \<in> set [''Describe this image in detail'',
                          ''Take a look at this image and describe what you notice'',
                          ''Please provide a detailed description of the picture'',
                          ''Could you describe the contents of this image for me?''].
        \<exists>processed.
          strip_processor template = Inr processed
        \<and> ''<Img><ImageHere></Img> Could you describe the contents of this image for me'' =
            ''<Img><ImageHere></Img>'' @ '' '' @ processed
        \<and> info ''caption'' = Some (PStr ''cardiomegaly'')
        \<and> info ''image_id'' = Some (PStr ''17''))"
proof -
  note i = example_init and g = example_getitem
  from training_sample_fields [OF i g]
  have "\<exists>info \<in> set [record_a, record_17].
        \<exists>template \<in> set [''Describe this image in detail'',
                          ''Take a look at this image and describe what you notice'',
                          ''Please provide a detailed description of the picture'',
                          ''Could you describe the contents of this image for me?''].
        \<exists>processed.
          strip_processor template = Inr processed
        \<and> ''<Img><ImageHere></Img> Could you describe the contents of this image for me'' =
            ''<Img><ImageHere></Img>'' @ '' '' @ processed
        \<and> info ''caption'' = Some (PStr ''cardiomegaly'')
        \<and> info ''image_id'' = Some (PStr ''17'')"
    unfolding sample.simps example_dataset_def MimicCxrDataset.simps by blast
  with i g show ?thesis by blast
qed

section \<open>The detection-style evaluation dataset: question and identifier\<close>

text \<open>
  C4. When \<^verbatim>\<open>__getitem__\<close> of the detection dataset returns, the question is
  \<^verbatim>\<open>[detection]\<close>, a space, and the record's \<^verbatim>\<open>objects\<close> as the f-string formats it
  (the string itself when it is a string), and the identifier is the record's \<^verbatim>\<open>key\<close>.
  It does return, with the dataset unchanged and nothing printed, when the record holds both
  fields and the image opens and is processed. For \<^verbatim>\<open>key="a.jpg"\<close> and
  \<^verbatim>\<open>objects="cat, dog"\<close> the question is \<^verbatim>\<open>[detection] cat, dog\<close>.
\<close>

theorem detect_question_and_identifier:
  "(evalDetectMimicDataset_getitem w self idx = (self', out, Inr (img, question, ident)) \<longrightarrow>
      (\<exists>data sent. py_index (d_loaded_data self) idx = Inr data
         \<and> data ''objects'' = Some sent
         \<and> question = ''[detection] '' @ py_format sent
         \<and> data ''key'' = Some ident))
   \<and> (py_index (d_loaded_data self) idx = Inr data
        \<and> data ''key'' = Some (PStr k) \<and> data ''objects'' = Some (PStr s)
        \<and> path_join (d_root_path self) (PStr k) = Inr image_path
        \<and> image_open w image_path = Inr opened
        \<and> d_vis_processor self (unresized_rgb w opened) = Inr img \<longrightarrow>
      evalDetectMimicDataset_getitem w self idx = (self, [], Inr (img, ''[detection] '' @ s, PStr k)))
   \<and> (py_index (d_loaded_data self) idx = Inr data
        \<and> data ''key'' = Some (PStr ''a.jpg'') \<and> data ''objects'' = Some (PStr ''cat, dog'')
        \<and> evalDetectMimicDataset_getitem w self idx = (self', out, Inr (img, question, ident)) \<longrightarrow>
      question = ''[detection] cat, dog'' \<and> ident = PStr ''a.jpg'')"
  by (auto simp: evalDetectMimicDataset_getitem_def subscript_def
        split: sum.splits option.splits)

lemma example_detect_getitem:
  "evalDetectMimicDataset_getitem example_world (example_detect [record_detect]) 0 =
     (example_detect [record_detect], [], Inr (Some (2, 3), ''[detection] cat, dog'', PStr ''a.jpg''))"
  by (simp add: evalDetectMimicDataset_getitem_def access_defs example_defs)

theorem detect_question_and_identifier_witness:
  "py_index (d_loaded_data (example_detect [record_detect])) 0 = Inr record_detect
   \<and> record_detect ''key'' = Some (PStr ''a.jpg'')
   \<and> record_detect ''objects'' = Some (PStr ''cat, dog'')
   \<and> evalDetectMimicDataset_getitem example_world (example_detect [record_detect]) 0 =
       (example_detect [record_detect], [],
        Inr (Some (2, 3), ''[detection] cat, dog'', PStr ''a.jpg''))
   \<and> ''[detection] cat, dog'' = ''[detection] '' @ py_format (PStr ''cat, dog'')"
proof -
  have a: "py_index (d_loaded_data (example_detect [record_detect])) 0 = Inr record_detect"
    by (simp add: py_index_def example_detect_def)
  have b: "record_detect ''key'' = Some (PStr ''a.jpg'')"
    and c: "record_detect ''objects'' = Some (PStr ''cat, dog'')"
    by (simp_all add: record_detect_def)
  note g = example_detect_getitem
  from detect_question_and_identifier
    [of example_world "example_detect [record_detect]" 0 "example_detect [record_detect]" "[]"
        "Some (2, 3)" "''[detection] cat, dog''" "PStr ''a.jpg''" record_detect]
    a b c g
  have "''[detection] cat, dog'' = ''[detection] '' @ py_format (PStr ''cat, dog'')"
    by simp
  with a b c g show ?thesis by blast
qed

section \<open>The caption-style evaluation dataset: question\<close>

lemma eval_init_fields:
  assumes "evalMIMICDataset_init w loaded vp root = (out, Inr self)"
  shows "e_instruction_pool self =
           [''Describe this image in detail'',
            ''Take a look at this image and describe what you notice'',
            ''Please provide a detailed description of the picture'',
            ''Could you describe the contents of this image for me?'']"
    and "e_vis_processor self = vp" and "e_root_path self = root"
  using assms
  by (auto simp: evalMIMICDataset_init_def evalMIMICDataset_validate_dataset_def
        split: sum.splits prod.splits)

lemma eval_getitem_question:
  assumes "evalMIMICDataset_getitem w self rnd idx = (self', out, Inr (img, question, ident))"
  shows "choice rnd (e_instruction_pool self) = Inr question"
  using assms
  by (auto simp: evalMIMICDataset_getitem_def Let_def split: sum.splits)

lemma pool_has_no_tag:
  assumes "question \<in> set [''Describe this image in detail'',
                             ''Take a look at this image and describe what you notice'',
                             ''Please provide a detailed description of the picture'',
                             ''Could you describe the contents of this image for me?'']"
  shows "CHR ''<'' \<notin> set question"
  using assms by auto

text \<open>
  C5. The question that \<^verbatim>\<open>__getitem__\<close> of a constructed caption-style dataset returns
  is the template of the pool at the drawn position, as it stands in the pool: the dataset
  has no text processor, and no template holds the image-placeholder tag.
\<close>

theorem caption_question_verbatim:
  assumes "evalMIMICDataset_init w0 loaded vp root = (out0, Inr self)"
    and "evalMIMICDataset_getitem w self rnd idx = (self', out, Inr (img, question, ident))"
  shows "question = [''Describe this image in detail'',
                     ''Take a look at this image and describe what you notice'',
                     ''Please provide a detailed description of the picture'',
                     ''Could you describe the contents of this image for me?''] ! (rnd mod 4)
       \<and> question \<in> set [''Describe this image in detail'',
                           ''Take a look at this image and describe what you notice'',
                           ''Please provide a detailed description of the picture'',
                           ''Could you describe the contents of this image for me?'']
       \<and> \<not> (\<exists>before after. question = before @ ''<Img><ImageHere></Img>'' @ after)
       \<and> \<not> (\<exists>before after. question = before @ ''<ImageHere>'' @ after)"
proof -
  from eval_getitem_question [OF assms(2)] eval_init_fields(1) [OF assms(1)]
  have q: "question = [''Describe this image in detail'',
                     ''Take a look at this image and describe what you notice'',
                     ''Please provide a detailed description of the picture'',
                     ''Could you describe the contents of this image for me?''] ! (rnd mod 4)"
    by (simp add: choice_def)
  have "rnd mod 4 < length [''Describe this image in detail'',
                     ''Take a look at this image and describe what you notice'',
                     ''Please provide a detailed description of the picture'',
                     ''Could you describe the contents of this image for me?'']"
    by simp
  from nth_mem [OF this] q have m: "question \<in> set [''Describe this image in detail'',
                           ''Take a look at this image and describe what you notice'',
                           ''Please provide a detailed description of the picture'',
                           ''Could you describe the contents of this image for me?'']"
    by simp
  from pool_has_no_tag [OF m] have n: "CHR ''<'' \<notin> set question" .
  have t1: "\<not> (\<exists>before after. question = before @ ''<Img><ImageHere></Img>'' @ after)"
    using n by auto
  have t2: "\<not> (\<exists>before after. question = before @ ''<ImageHere>'' @ after)"
    using n by auto
  from q m t1 t2 show ?thesis by blast
qed

lemma example_eval_init:
  "evalMIMICDataset_init example_world [record_a, record_b, record_17] size_processor ''/data'' =
     ([Validating ''evalMIMIC'', Missing ''/data/b.jpg'', ValidationComplete ''evalMIMIC'',
       TotalSamples 3, MissingFiles 1, ValidSamples 2],
      Inr (example_eval [record_a, record_17]))"
  by (simp add: evalMIMICDataset_init_def evalMIMICDataset_validate_dataset_def
        validate_dataset_def subscript_def path_join_def example_defs)

lemma example_eval_getitem:
  "evalMIMICDataset_getitem example_world (example_eval [record_a, record_17]) 7 1 =
     (example_eval [record_a, record_17], [],
      Inr (Some (448, 448), ''Could you describe the contents of this image for me?'', ''17.jpg''))"
  by (simp add: evalMIMICDataset_getitem_def access_defs example_defs)

theorem caption_question_verbatim_witness:
  "evalMIMICDataset_init example_world [record_a, record_b, record_17] size_processor ''/data'' =
     ([Validating ''evalMIMIC'', Missing ''/data/b.jpg'', ValidationComplete ''evalMIMIC'',
       TotalSamples 3, MissingFiles 1, ValidSamples 2],
      Inr (example_eval [record_a, record_17]))
   \<and> evalMIMICDataset_getitem example_world (example_eval [record_a, record_17]) 7 1 =
     (example_eval [record_a, record_17], [],
      Inr (Some (448, 448), ''Could you describe the contents of this image for me?'', ''17.jpg''))
   \<and> ''Could you describe the contents of this image for me?'' \<in>
       set [''Describe this image in detail'',
            ''Take a look at this image and describe what you notice'',
            ''Please provide a detailed description of the picture'',
            ''Could you describe the contents of this image for me?'']"
proof -
  note i = example_eval_init and g = example_eval_getitem
  from caption_question_verbatim [OF i g]
  have "''Could you describe the contents of this image for me?'' \<in>
       set [''Describe this image in detail'',
            ''Take a look at this image and describe what you notice'',
            ''Please provide a detailed description of the picture'',
            ''Could you describe the contents of this image for me?'']"
    by blast
  with i g show ?thesis by blast
qed

section \<open>The image handed to the image processor\<close>

lemma unresized_rgb_shape:
  "isize (unresized_rgb w im) = isize im" "imode (unresized_rgb w im) = RGB"
  by (simp_all add: unresized_rgb_def convert_L_def Image_new_def paste_def Let_def)

lemma unresized_rgb_pixel:
  "x < fst (isize im) \<and> y < snd (isize im) \<longrightarrow>
     ipixel (unresized_rgb w im) x y = replicate 3 (luma w (ipixel im x y))"
  by (simp add: unresized_rgb_def convert_L_def Image_new_def paste_def Let_def)

lemma resized_rgb_shape:
  "isize (resized_rgb w im) = (448, 448)" "imode (resized_rgb w im) = RGB"
  by (simp_all add: resized_rgb_def resize_def convert_L_def Image_new_def paste_def Let_def)

lemma load_image_Some:
  assumes "load_image w self p = (out, Inr (Some img))"
  shows "\<exists>path opened. image_open w path = Inr opened
           \<and> vis_processor self (resized_rgb w opened) = Inr (Some img)"
  using assms
  by (auto simp: load_image_def split: sum.splits if_splits)

lemma training_getitem_image:
  assumes "MimicCxrDataset_getitem w self rnd index = (self', out, Inr s)"
  shows "\<exists>path opened. image_open w path = Inr opened
           \<and> vis_processor self (resized_rgb w opened) = Inr (Some (image_sample s))"
proof -
  from assms obtain o2 where "getitem_loop w self rnd index 0 = (o2, Inr s)"
    by (auto simp: MimicCxrDataset_getitem_def split: prod.splits)
  then obtain j r out' where "try_body w self r j = (out', Inr (Return s))"
    using loop_return by blast
  from try_body_Return [OF this] obtain p where
    "load_image w self p = (out', Inr (Some (image_sample s)))"
    by blast
  then show ?thesis by (rule load_image_Some)
qed

text \<open>
  C6. The image that the detection dataset hands to its processor is the opened image in
  grayscale pasted on a new three-band image of the opened image's own size: no resize,
  and each pixel holds the gray value in its three bands. The caption-style dataset and
  \<^verbatim>\<open>load_image\<close> of the training dataset hand over the grayscale image resized to
  448 by 448, pasted on a three-band image of that size.
\<close>

theorem detection_keeps_size_others_resize:
  "(evalDetectMimicDataset_getitem w sd idx1 = (sd', out1, Inr (img1, q1, id1)) \<longrightarrow>
      (\<exists>path opened. image_open w path = Inr opened
         \<and> d_vis_processor sd (unresized_rgb w opened) = Inr img1))
   \<and> unresized_rgb w im = paste (Image_new RGB (isize im)) (convert_L w im)
   \<and> isize (unresized_rgb w im) = isize im
   \<and> imode (unresized_rgb w im) = RGB
   \<and> (\<forall>x y. x < fst (isize im) \<and> y < snd (isize im) \<longrightarrow>
         ipixel (unresized_rgb w im) x y = replicate 3 (luma w (ipixel im x y)))
   \<and> (evalMIMICDataset_getitem w se rnd2 idx2 = (se', out2, Inr (img2, q2, id2)) \<longrightarrow>
      (\<exists>path opened. image_open w path = Inr opened
         \<and> e_vis_processor se (resized_rgb w opened) = Inr img2))
   \<and> (MimicCxrDataset_getitem w st rnd3 idx3 = (st', out3, Inr s) \<longrightarrow>
      (\<exists>path opened. image_open w path = Inr opened
         \<and> vis_processor st (resized_rgb w opened) = Inr (Some (image_sample s))))
   \<and> resized_rgb w im = paste (Image_new RGB (448, 448)) (resize w (448, 448) (convert_L w im))
   \<and> isize (resized_rgb w im) = (448, 448)
   \<and> imode (resized_rgb w im) = RGB"
proof (intro conjI impI)
  assume "evalDetectMimicDataset_getitem w sd idx1 = (sd', out1, Inr (img1, q1, id1))"
  then show "\<exists>path opened. image_open w path = Inr opened
         \<and> d_vis_processor sd (unresized_rgb w opened) = Inr img1"
    by (auto simp: evalDetectMimicDataset_getitem_def split: sum.splits)
next
  assume "evalMIMICDataset_getitem w se rnd2 idx2 = (se', out2, Inr (img2, q2, id2))"
  then show "\<exists>path opened. image_open w path = Inr opened
         \<and> e_vis_processor se (resized_rgb w opened) = Inr img2"
    by (auto simp: evalMIMICDataset_getitem_def Let_def split: sum.splits)
next
  assume "MimicCxrDataset_getitem w st rnd3 idx3 = (st', out3, Inr s)"
  then show "\<exists>path opened. image_open w path = Inr opened
         \<and> vis_processor st (resized_rgb w opened) = Inr (Some (image_sample s))"
    by (rule training_getitem_image)
next
  show "\<forall>x y. x < fst (isize im) \<and> y < snd (isize im) \<longrightarrow>
         ipixel (unresized_rgb w im) x y = replicate 3 (luma w (ipixel im x y))"
    using unresized_rgb_pixel by blast
qed (simp_all add: unresized_rgb_shape resized_rgb_shape,
     simp_all add: unresized_rgb_def resized_rgb_def resize_def convert_L_def Let_def)

text \<open>
  The processor of the examples returns the size it sees: 2 by 3, the size of the file's
  image, from the detection dataset, and 448 by 448 from the other two.
\<close>

theorem detection_keeps_size_others_resize_witness:
  "evalDetectMimicDataset_getitem example_world (example_detect [record_detect]) 0 =
     (example_detect [record_detect], [], Inr (Some (2, 3), ''[detection] cat, dog'', PStr ''a.jpg''))
   \<and> isize example_image = (2, 3)
   \<and> evalMIMICDataset_getitem example_world (example_eval [record_a, record_17]) 7 1 =
     (example_eval [record_a, record_17], [],
      Inr (Some (448, 448), ''Could you describe the contents of this image for me?'', ''17.jpg''))
   \<and> MimicCxrDataset_getitem example_world (example_dataset [record_a, record_17]) (\<lambda>k. 3) 1 =
     (example_dataset [record_a, record_17], [],
      Inr \<lparr>image_sample = (448, 448),
           instruction_input = ''<Img><ImageHere></Img> Could you describe the contents of this image for me'',
           answer = PStr ''cardiomegaly'', image_id = PStr ''17''\<rparr>)
   \<and> (\<exists>path opened. image_open example_world path = Inr opened
         \<and> size_processor (unresized_rgb example_world opened) = Inr (Some (2, 3)))
   \<and> (\<exists>path opened. image_open example_world path = Inr opened
         \<and> size_processor (resized_rgb example_world opened) = Inr (Some (448, 448)))"
proof -
  note d = example_detect_getitem and e = example_eval_getitem and t = example_getitem
  note inst = detection_keeps_size_others_resize
    [of example_world "example_detect [record_detect]" 0 "example_detect [record_detect]" "[]"
        "Some (2, 3)" "''[detection] cat, dog''" "PStr ''a.jpg''" example_image
        "example_eval [record_a, record_17]" 7 1 "example_eval [record_a, record_17]" "[]"
        "Some (448, 448)" "''Could you describe the contents of this image for me?''" "''17.jpg''"]
  have s: "isize example_image = (2, 3)" by (simp add: example_image_def)
  from inst [THEN conjunct1, THEN mp, OF d] have 1: "\<exists>path opened. image_open example_world path = Inr opened
         \<and> size_processor (unresized_rgb example_world opened) = Inr (Some (2, 3))"
    by (simp add: example_detect_def)
  from inst [THEN conjunct2, THEN conjunct2, THEN conjunct2, THEN conjunct2, THEN conjunct2,
      THEN conjunct1, THEN mp, OF e] have 2: "\<exists>path opened. image_open example_world path = Inr opened
         \<and> size_processor (resized_rgb example_world opened) = Inr (Some (448, 448))"
    by (simp add: example_eval_def)
  from d s e t 1 2 show ?thesis by blast
qed

section \<open>The caption in the caption-style evaluation dataset\<close>

lemma validate_loop_caption:
  assumes "field \<noteq> ''caption''"
  shows "validate_loop w root field (map (\<lambda>d. d(''caption'' := c d)) items)
           (map (\<lambda>d. d(''caption'' := c d)) valid) missing out =
         (case validate_loop w root field items valid missing out of
            (o1, Inl e) \<Rightarrow> (o1, Inl e)
          | (o1, Inr (v, m)) \<Rightarrow> (o1, Inr (map (\<lambda>d. d(''caption'' := c d)) v, m)))"
proof (induction items arbitrary: valid missing out)
  case Nil
  show ?case by (simp del: fun_upd_apply)
next
  case (Cons item rest)
  from assms have s: "subscript (item(''caption'' := c item)) field = subscript item field"
    by (simp add: subscript_def)
  show ?case
  proof (cases "subscript item field")
    case (Inl e)
    with s show ?thesis by (simp del: fun_upd_apply)
  next
    case (Inr v)
    show ?thesis
    proof (cases "path_join root v")
      case (Inl e)
      with s Inr show ?thesis by (simp del: fun_upd_apply)
    next
      case p: (Inr image_path)
      show ?thesis
      proof (cases "path_exists w image_path")
        case True
        with s Inr p Cons.IH [of "valid @ [item]" missing out] show ?thesis
          by (simp del: fun_upd_apply)
      next
        case False
        with s Inr p Cons.IH [of valid "missing + 1"] show ?thesis
          by (simp del: fun_upd_apply)
      qed
    qed
  qed
qed

lemma validate_dataset_caption:
  "validate_dataset w label root ''image_path'' (map (\<lambda>d. d(''caption'' := c d)) data) =
     (case validate_dataset w label root ''image_path'' data of
        (o1, Inl e) \<Rightarrow> (o1, Inl e)
      | (o1, Inr v) \<Rightarrow> (o1, Inr (map (\<lambda>d. d(''caption'' := c d)) v)))"
  using validate_loop_caption [of "''image_path''" w root c data "[]" 0 "[Validating label]"]
  by (simp add: validate_dataset_def del: fun_upd_apply split: prod.splits sum.splits)

text \<open>
  C7. Once the image of the record is opened and processed, \<^verbatim>\<open>__getitem__\<close> of the
  caption-style dataset reads the caption: without the field it raises \<^verbatim>\<open>KeyError\<close>; with
  it, the triple returned is the image, the question and the identifier, whatever the
  caption is. Validation does not look at the caption: changing or removing the captions of
  the input list changes nothing in what validation prints and keeps, beyond the captions
  of the records kept.
\<close>

theorem caption_read_not_returned_not_validated:
  "(py_index (e_loaded_data self) idx = Inr info
      \<and> info ''image_id'' = Some ident \<and> info ''image_path'' = Some p
      \<and> path_join (e_root_path self) p = Inr image_path
      \<and> image_open w image_path = Inr opened
      \<and> e_vis_processor self (resized_rgb w opened) = Inr img
      \<and> choice rnd (e_instruction_pool self) = Inr question \<longrightarrow>
    evalMIMICDataset_getitem w self rnd idx =
      (self, [],
       case info ''caption'' of
         None \<Rightarrow> Inl (KeyError ''caption'')
       | Some caption \<Rightarrow> Inr (img, question, py_format ident @ ''.jpg'')))
   \<and> evalMIMICDataset_init w (map (\<lambda>d. d(''caption'' := c d)) loaded) vp root =
       (case evalMIMICDataset_init w loaded vp root of
          (o1, Inl e) \<Rightarrow> (o1, Inl e)
        | (o1, Inr ds) \<Rightarrow>
            (o1, Inr (ds\<lparr>e_loaded_data := map (\<lambda>d. d(''caption'' := c d)) (e_loaded_data ds)\<rparr>)))"
proof (intro conjI impI)
  assume "py_index (e_loaded_data self) idx = Inr info
      \<and> info ''image_id'' = Some ident \<and> info ''image_path'' = Some p
      \<and> path_join (e_root_path self) p = Inr image_path
      \<and> image_open w image_path = Inr opened
      \<and> e_vis_processor self (resized_rgb w opened) = Inr img
      \<and> choice rnd (e_instruction_pool self) = Inr question"
  then show "evalMIMICDataset_getitem w self rnd idx =
      (self, [],
       case info ''caption'' of
         None \<Rightarrow> Inl (KeyError ''caption'')
       | Some caption \<Rightarrow> Inr (img, question, py_format ident @ ''.jpg''))"
    by (simp add: evalMIMICDataset_getitem_def subscript_def Let_def split: option.splits)
next
  show "evalMIMICDataset_init w (map (\<lambda>d. d(''caption'' := c d)) loaded) vp root =
       (case evalMIMICDataset_init w loaded vp root of
          (o1, Inl e) \<Rightarrow> (o1, Inl e)
        | (o1, Inr ds) \<Rightarrow>
            (o1, Inr (ds\<lparr>e_loaded_data := map (\<lambda>d. d(''caption'' := c d)) (e_loaded_data ds)\<rparr>)))"
    by (simp add: evalMIMICDataset_init_def evalMIMICDataset_validate_dataset_def
          validate_dataset_caption del: fun_upd_apply split: prod.splits sum.splits)
qed


lemma example_eval_no_caption:
  "evalMIMICDataset_getitem example_world (example_eval [record_17(''caption'' := None)]) 0 0 =
     (example_eval [record_17(''caption'' := None)], [], Inl (KeyError ''caption''))"
  by (simp add: evalMIMICDataset_getitem_def access_defs example_defs)

text \<open>A record whose image exists and whose caption is missing.\<close>

theorem caption_read_not_returned_not_validated_witness:
  "py_index (e_loaded_data (example_eval [record_17(''caption'' := None)])) 0 =
     Inr (record_17(''caption'' := None))
   \<and> (record_17(''caption'' := None)) ''image_id'' = Some (PStr ''17'')
   \<and> (record_17(''caption'' := None)) ''image_path'' = Some (PStr ''17.jpg'')
   \<and> path_join (e_root_path (example_eval [record_17(''caption'' := None)])) (PStr ''17.jpg'') =
       Inr ''/data/17.jpg''
   \<and> image_open example_world ''/data/17.jpg'' = Inr example_image
   \<and> e_vis_processor (example_eval [record_17(''caption'' := None)])
         (resized_rgb example_world example_image) = Inr (Some (448, 448))
   \<and> choice 0 (e_instruction_pool (example_eval [record_17(''caption'' := None)])) =
       Inr ''Describe this image in detail''
   \<and> evalMIMICDataset_getitem example_world (example_eval [record_17(''caption'' := None)]) 0 0 =
       (example_eval [record_17(''caption'' := None)], [], Inl (KeyError ''caption''))"
proof -
  have a: "py_index (e_loaded_data (example_eval [record_17(''caption'' := None)])) 0 =
     Inr (record_17(''caption'' := None))"
    by (simp add: py_index_def example_eval_def del: fun_upd_apply)
  have b: "(record_17(''caption'' := None)) ''image_id'' = Some (PStr ''17'')"
    and c: "(record_17(''caption'' := None)) ''image_path'' = Some (PStr ''17.jpg'')"
    and n: "(record_17(''caption'' := None)) ''caption'' = None"
    by (simp_all add: record_17_def)
  have d: "path_join (e_root_path (example_eval [record_17(''caption'' := None)])) (PStr ''17.jpg'') =
       Inr ''/data/17.jpg''"
    by (simp add: path_join_def example_eval_def)
  have e: "image_open example_world ''/data/17.jpg'' = Inr example_image"
    by (simp add: example_world_def)
  have f: "e_vis_processor (example_eval [record_17(''caption'' := None)])
         (resized_rgb example_world example_image) = Inr (Some (448, 448))"
    by (simp add: example_eval_def size_processor_def resized_rgb_shape)
  have g: "choice 0 (e_instruction_pool (example_eval [record_17(''caption'' := None)])) =
       Inr ''Describe this image in detail''"
    by (simp add: choice_def example_eval_def)
  from a b c d e f g have h: "py_index (e_loaded_data (example_eval [record_17(''caption'' := None)])) 0 =
       Inr (record_17(''caption'' := None))
      \<and> (record_17(''caption'' := None)) ''image_id'' = Some (PStr ''17'')
      \<and> (record_17(''caption'' := None)) ''image_path'' = Some (PStr ''17.jpg'')
      \<and> path_join (e_root_path (example_eval [record_17(''caption'' := None)])) (PStr ''17.jpg'') =
          Inr ''/data/17.jpg''
      \<and> image_open example_world ''/data/17.jpg'' = Inr example_image
      \<and> e_vis_processor (example_eval [record_17(''caption'' := None)])
            (resized_rgb example_world example_image) = Inr (Some (448, 448))
      \<and> choice 0 (e_instruction_pool (example_eval [record_17(''caption'' := None)])) =
          Inr ''Describe this image in detail''"
    by blast
  from caption_read_not_returned_not_validated [THEN conjunct1, THEN mp, OF h]
  have "evalMIMICDataset_getitem example_world (example_eval [record_17(''caption'' := None)]) 0 0 =
       (example_eval [record_17(''caption'' := None)], [], Inl (KeyError ''caption''))"
    by (simp only: n option.case)
  with a b c d e f g show ?thesis by blast
qed

section \<open>Errors in the evaluation datasets\<close>

text \<open>
  C8. In both evaluation datasets an exception of \<^verbatim>\<open>Image.open\<close> (opening and decoding)
  or of the image processor is the result of \<^verbatim>\<open>__getitem__\<close>, with nothing printed and
  the dataset as it was; whatever the outcome of an access, it prints nothing and leaves the
  dataset unchanged. The result is fixed by the record at the index alone: no other index
  is tried.
\<close>

theorem evaluation_errors_propagate:
  "(py_index (e_loaded_data se) idx = Inr info
      \<and> info ''image_id'' = Some ident \<and> info ''image_path'' = Some p
      \<and> path_join (e_root_path se) p = Inr image_path
      \<and> (image_open w image_path = Inl e
          \<or> (\<exists>opened. image_open w image_path = Inr opened
                \<and> e_vis_processor se (resized_rgb w opened) = Inl e)) \<longrightarrow>
    evalMIMICDataset_getitem w se rnd idx = (se, [], Inl e))
   \<and> (py_index (d_loaded_data sd) idx' = Inr data
      \<and> data ''key'' = Some k \<and> data ''objects'' = Some sent
      \<and> path_join (d_root_path sd) k = Inr image_path'
      \<and> (image_open w image_path' = Inl e'
          \<or> (\<exists>opened. image_open w image_path' = Inr opened
                \<and> d_vis_processor sd (unresized_rgb w opened) = Inl e')) \<longrightarrow>
    evalDetectMimicDataset_getitem w sd idx' = (sd, [], Inl e'))
   \<and> fst (evalMIMICDataset_getitem w se rnd idx) = se
   \<and> fst (snd (evalMIMICDataset_getitem w se rnd idx)) = []
   \<and> fst (evalDetectMimicDataset_getitem w sd idx') = sd
   \<and> fst (snd (evalDetectMimicDataset_getitem w sd idx')) = []"
  by (auto simp: evalMIMICDataset_getitem_def evalDetectMimicDataset_getitem_def subscript_def
        Let_def)

text \<open>
  A record whose file has gone after validation, in the caption-style dataset, and a
  processor that raises, in the detection dataset.
\<close>

theorem evaluation_errors_propagate_witness:
  "py_index (e_loaded_data (example_eval [record_b])) 0 = Inr record_b
   \<and> record_b ''image_id'' = Some (PInt 6) \<and> record_b ''image_path'' = Some (PStr ''b.jpg'')
   \<and> path_join (e_root_path (example_eval [record_b])) (PStr ''b.jpg'') = Inr ''/data/b.jpg''
   \<and> image_open example_world ''/data/b.jpg'' = Inl (LibraryError ''No such file or directory'')
   \<and> evalMIMICDataset_getitem example_world (example_eval [record_b]) 0 0 =
       (example_eval [record_b], [], Inl (LibraryError ''No such file or directory''))
   \<and> py_index (d_loaded_data ((example_detect [record_detect])\<lparr>d_vis_processor := failing_processor\<rparr>)) 0 =
       Inr record_detect
   \<and> record_detect ''key'' = Some (PStr ''a.jpg'')
   \<and> record_detect ''objects'' = Some (PStr ''cat, dog'')
   \<and> path_join (d_root_path ((example_detect [record_detect])\<lparr>d_vis_processor := failing_processor\<rparr>))
        (PStr ''a.jpg'') = Inr ''/data/a.jpg''
   \<and> image_open example_world ''/data/a.jpg'' = Inr example_image
   \<and> d_vis_processor ((example_detect [record_detect])\<lparr>d_vis_processor := failing_processor\<rparr>)
        (unresized_rgb example_world example_image) = Inl (LibraryError ''out of memory'')
   \<and> evalDetectMimicDataset_getitem example_world
        ((example_detect [record_detect])\<lparr>d_vis_processor := failing_processor\<rparr>) 0 =
       ((example_detect [record_detect])\<lparr>d_vis_processor := failing_processor\<rparr>, [],
        Inl (LibraryError ''out of memory''))"
proof -
  have a: "py_index (e_loaded_data (example_eval [record_b])) 0 = Inr record_b"
    by (simp add: py_index_def example_eval_def)
  have b: "record_b ''image_id'' = Some (PInt 6)"
    and c: "record_b ''image_path'' = Some (PStr ''b.jpg'')"
    by (simp_all add: record_b_def)
  have d: "path_join (e_root_path (example_eval [record_b])) (PStr ''b.jpg'') = Inr ''/data/b.jpg''"
    by (simp add: path_join_def example_eval_def)
  have e: "image_open example_world ''/data/b.jpg'' = Inl (LibraryError ''No such file or directory'')"
    by (simp add: example_world_def)
  from a b c d e
  have h: "py_index (e_loaded_data (example_eval [record_b])) 0 = Inr record_b
      \<and> record_b ''image_id'' = Some (PInt 6) \<and> record_b ''image_path'' = Some (PStr ''b.jpg'')
      \<and> path_join (e_root_path (example_eval [record_b])) (PStr ''b.jpg'') = Inr ''/data/b.jpg''
      \<and> (image_open example_world ''/data/b.jpg'' = Inl (LibraryError ''No such file or directory'')
          \<or> (\<exists>opened. image_open example_world ''/data/b.jpg'' = Inr opened
                \<and> e_vis_processor (example_eval [record_b]) (resized_rgb example_world opened) =
                    Inl (LibraryError ''No such file or directory'')))"
    by blast
  have 1: "evalMIMICDataset_getitem example_world (example_eval [record_b]) 0 0 =
       (example_eval [record_b], [], Inl (LibraryError ''No such file or directory''))"
    by (rule evaluation_errors_propagate [THEN conjunct1, THEN mp, OF h])
  have a': "py_index (d_loaded_data ((example_detect [record_detect])\<lparr>d_vis_processor := failing_processor\<rparr>)) 0 =
       Inr record_detect"
    by (simp add: py_index_def example_detect_def)
  have b': "record_detect ''key'' = Some (PStr ''a.jpg'')"
    and c': "record_detect ''objects'' = Some (PStr ''cat, dog'')"
    by (simp_all add: record_detect_def)
  have d': "path_join (d_root_path ((example_detect [record_detect])\<lparr>d_vis_processor := failing_processor\<rparr>))
        (PStr ''a.jpg'') = Inr ''/data/a.jpg''"
    by (simp add: path_join_def example_detect_def)
  have e': "image_open example_world ''/data/a.jpg'' = Inr example_image"
    by (simp add: example_world_def)
  have f': "d_vis_processor ((example_detect [record_detect])\<lparr>d_vis_processor := failing_processor\<rparr>)
        (unresized_rgb example_world example_image) = Inl (LibraryError ''out of memory'')"
    by (simp add: failing_processor_def)
  from a' b' c' d' e' f'
  have h': "py_index (d_loaded_data ((example_detect [record_detect])\<lparr>d_vis_processor := failing_processor\<rparr>)) 0 =
         Inr record_detect
      \<and> record_detect ''key'' = Some (PStr ''a.jpg'')
      \<and> record_detect ''objects'' = Some (PStr ''cat, dog'')
      \<and> path_join (d_root_path ((example_detect [record_detect])\<lparr>d_vis_processor := failing_processor\<rparr>))
            (PStr ''a.jpg'') = Inr ''/data/a.jpg''
      \<and> (image_open example_world ''/data/a.jpg'' = Inl (LibraryError ''out of memory'')
          \<or> (\<exists>opened. image_open example_world ''/data/a.jpg'' = Inr opened
                \<and> d_vis_processor ((example_detect [record_detect])\<lparr>d_vis_processor := failing_processor\<rparr>)
                      (unresized_rgb example_world opened) = Inl (LibraryError ''out of memory'')))"
    by blast
  have 2: "evalDetectMimicDataset_getitem example_world
        ((example_detect [record_detect])\<lparr>d_vis_processor := failing_processor\<rparr>) 0 =
       ((example_detect [record_detect])\<lparr>d_vis_processor := failing_processor\<rparr>, [],
        Inl (LibraryError ''out of memory''))"
    by (rule evaluation_errors_propagate [THEN conjunct2, THEN conjunct1, THEN mp, OF h'])
  from a b c d e 1 a' b' c' d' e' f' 2 show ?thesis by blast
qed

section \<open>The identifier of the caption-style evaluation dataset\<close>

text \<open>
  C10, as stated, fails where the record's \<^verbatim>\<open>image_path\<close> is its \<^verbatim>\<open>image_id\<close> followed by
  \<^verbatim>\<open>.jpg\<close>: the identifier returned is then the record's \<^verbatim>\<open>image_path\<close>.
\<close>

theorem caption_identifier_is_image_path_counterexample:
  "evalMIMICDataset_getitem example_world (example_eval [record_a, record_17]) 7 1 =
     (example_eval [record_a, record_17], [],
      Inr (Some (448, 448), ''Could you describe the contents of this image for me?'', ''17.jpg''))
   \<and> py_index (e_loaded_data (example_eval [record_a, record_17])) 1 = Inr record_17
   \<and> record_17 ''image_path'' = Some (PStr ''17.jpg'')"
  by (simp add: evalMIMICDataset_getitem_def access_defs example_defs)

text \<open>
  C10, amended. The identifier that \<^verbatim>\<open>__getitem__\<close> of the caption-style dataset returns
  is the string form of the record's \<^verbatim>\<open>image_id\<close> followed by \<^verbatim>\<open>.jpg\<close>. It is never the
  raw \<^verbatim>\<open>image_id\<close>. It is built from \<^verbatim>\<open>image_id\<close> alone, so it is the record's
  \<^verbatim>\<open>image_path\<close> only when that path is itself the \<^verbatim>\<open>image_id\<close> followed by \<^verbatim>\<open>.jpg\<close>.
\<close>

theorem caption_identifier_from_image_id:
  assumes "evalMIMICDataset_getitem w self rnd idx = (self', out, Inr (img, question, ident))"
  shows "\<exists>info v. py_index (e_loaded_data self) idx = Inr info
           \<and> info ''image_id'' = Some v
           \<and> ident = py_format v @ ''.jpg''
           \<and> PStr ident \<noteq> v"
proof -
  from assms obtain info v where f: "py_index (e_loaded_data self) idx = Inr info"
    "info ''image_id'' = Some v" "ident = py_format v @ ''.jpg''"
    by (auto simp: evalMIMICDataset_getitem_def subscript_def Let_def
          split: sum.splits option.splits)
  have "PStr (py_format v @ ''.jpg'') \<noteq> v"
    by (cases v) simp_all
  with f show ?thesis by blast
qed

lemma example_eval_getitem_int:
  "evalMIMICDataset_getitem example_world (example_eval [record_a, record_17]) 0 0 =
     (example_eval [record_a, record_17], [],
      Inr (Some (448, 448), ''Describe this image in detail'', ''5.jpg''))"
  by (simp add: evalMIMICDataset_getitem_def access_defs example_defs int_to_str_def
        nat_to_str.simps digit_char_def)

text \<open>The record with the integer identifier 5.\<close>

theorem caption_identifier_from_image_id_witness:
  "evalMIMICDataset_getitem example_world (example_eval [record_a, record_17]) 0 0 =
     (example_eval [record_a, record_17], [],
      Inr (Some (448, 448), ''Describe this image in detail'', ''5.jpg''))
   \<and> (\<exists>info v. py_index (e_loaded_data (example_eval [record_a, record_17])) 0 = Inr info
           \<and> info ''image_id'' = Some v
           \<and> ''5.jpg'' = py_format v @ ''.jpg''
           \<and> PStr ''5.jpg'' \<noteq> v)"
  using caption_identifier_from_image_id [OF example_eval_getitem_int] example_eval_getitem_int
  by blast

end
